theory Spec2Isabelle
  imports Complex_Main "HOL-Library.Sublist"
begin

section \<open>Values of the request\<close>

text \<open>
  The webhook of \<^verbatim>\<open>main.py\<close> receives a JSON document that the framework has parsed
  and validated. The values inside it are dynamically typed: the code inspects them with
  \<^verbatim>\<open>is None\<close>, \<^verbatim>\<open>isinstance\<close>, truthiness, \<^verbatim>\<open>int(...)\<close>
  and \<^verbatim>\<open>str(...)\<close>. They are modelled by one datatype with a constructor for each
  type a parsed JSON value can have.

  A float is its exact rational value, or one of the three non-finite values that the JSON
  parser also accepts. A string is a list of bytes (its UTF-8 encoding). A dictionary is a
  map from keys to values.
\<close>

datatype pyfloat = Finite rat | PosInf | NegInf | NaN

datatype pyobj =
    PNone
  | PBool bool
  | PInt int
  | PFloat pyfloat
  | PStr string
  | PList "pyobj list"
  | PDict "string \<Rightarrow> pyobj option"

type_synonym pydict = "string \<Rightarrow> pyobj option"

datatype error = ValueError | TypeError | OverflowError

text \<open>\<^verbatim>\<open>bool(v)\<close>: the truth value Python gives an object in \<^verbatim>\<open>if v:\<close>.\<close>

fun truthy :: "pyobj \<Rightarrow> bool" where
  "truthy PNone = False"
| "truthy (PBool b) = b"
| "truthy (PInt n) = (n \<noteq> 0)"
| "truthy (PFloat (Finite r)) = (r \<noteq> 0)"
| "truthy (PFloat PosInf) = True"
| "truthy (PFloat NegInf) = True"
| "truthy (PFloat NaN) = True"
| "truthy (PStr s) = (s \<noteq> [])"
| "truthy (PList xs) = (xs \<noteq> [])"
| "truthy (PDict d) = (d \<noteq> Map.empty)"

text \<open>\<^verbatim>\<open>d.get(k)\<close>: the value stored under \<open>k\<close>, and \<^verbatim>\<open>None\<close> when the key is absent.\<close>

definition dict_get :: "pydict \<Rightarrow> string \<Rightarrow> pyobj" where
  "dict_get d k = (case d k of None \<Rightarrow> PNone | Some v \<Rightarrow> v)"

subsection \<open>What the interpreter decides\<close>

text \<open>
  Two results of built-in functions are not determined by the program or by the values it
  receives alone; the model takes them as parameters, and every theorem holds for each
  choice of them.
  \<^item> \<open>str_of_object\<close>: the text \<^verbatim>\<open>str\<close> gives an object that is not a string.
  \<^item> \<open>int_of_literal\<close>: the result of \<^verbatim>\<open>int\<close> on a string that has a character
    beyond ASCII, where the outcome depends on the Unicode tables of the interpreter, or
    more than 4300 digits, where it depends on the limit the interpreter is configured
    with.
\<close>

record builtins =
  str_of_object :: "pyobj \<Rightarrow> string"
  int_of_literal :: "string \<Rightarrow> error + int"

subsection \<open>The built-in \<^verbatim>\<open>int\<close>\<close>

text \<open>
  \<^verbatim>\<open>int(v)\<close> returns an integer or raises. On an ASCII string it accepts a decimal
  literal: white space on both sides (tab, line feed, vertical tab, form feed, carriage
  return and space), an optional sign, then digits in which single underscores may separate
  digits.
\<close>

definition is_space :: "char \<Rightarrow> bool" where
  "is_space c = (let n = (of_char c :: nat) in (9 \<le> n \<and> n \<le> 13) \<or> n = 32)"

definition is_digit :: "char \<Rightarrow> bool" where
  "is_digit c = (let n = (of_char c :: nat) in 48 \<le> n \<and> n \<le> 57)"

definition is_ascii :: "char \<Rightarrow> bool" where
  "is_ascii c = ((of_char c :: nat) < 128)"

definition digit_value :: "char \<Rightarrow> int" where
  "digit_value c = int (of_char c) - 48"

text \<open>
  \<open>parse_digits acc prev cs\<close> reads the digits \<open>cs\<close> after the value \<open>acc\<close>; \<open>prev\<close>
  tells whether the character just read was a digit, which an underscore and the end of the
  literal both require.
\<close>

fun parse_digits :: "int \<Rightarrow> bool \<Rightarrow> string \<Rightarrow> int option" where
  "parse_digits acc prev [] = (if prev then Some acc else None)"
| "parse_digits acc prev (c # cs) =
     (if is_digit c then parse_digits (acc * 10 + digit_value c) True cs
      else if c = CHR ''_'' \<and> prev then parse_digits acc False cs
      else None)"

definition strip :: "string \<Rightarrow> string" where
  "strip s = rev (dropWhile is_space (rev (dropWhile is_space s)))"

definition ascii_literal :: "string \<Rightarrow> error + int" where
  "ascii_literal s =
     (case strip s of
        [] \<Rightarrow> Inl ValueError
      | c # cs \<Rightarrow>
          (if c = CHR ''-'' then
             (case parse_digits 0 False cs of None \<Rightarrow> Inl ValueError | Some n \<Rightarrow> Inr (- n))
           else if c = CHR ''+'' then
             (case parse_digits 0 False cs of None \<Rightarrow> Inl ValueError | Some n \<Rightarrow> Inr n)
           else
             (case parse_digits 0 False (c # cs) of None \<Rightarrow> Inl ValueError | Some n \<Rightarrow> Inr n)))"

definition int_of_string :: "builtins \<Rightarrow> string \<Rightarrow> error + int" where
  "int_of_string py s =
     (if list_all is_ascii s \<and> length (filter is_digit s) \<le> 4300 then ascii_literal s
      else int_of_literal py s)"

text \<open>A finite float is truncated towards zero.\<close>

definition truncate :: "rat \<Rightarrow> int" where
  "truncate r = (if 0 \<le> r then \<lfloor>r\<rfloor> else \<lceil>r\<rceil>)"

fun py_int :: "builtins \<Rightarrow> pyobj \<Rightarrow> error + int" where
  "py_int py PNone = Inl TypeError"
| "py_int py (PBool b) = Inr (if b then 1 else 0)"
| "py_int py (PInt n) = Inr n"
| "py_int py (PFloat (Finite r)) = Inr (truncate r)"
| "py_int py (PFloat PosInf) = Inl OverflowError"
| "py_int py (PFloat NegInf) = Inl OverflowError"
| "py_int py (PFloat NaN) = Inl ValueError"
| "py_int py (PStr s) = int_of_string py s"
| "py_int py (PList xs) = Inl TypeError"
| "py_int py (PDict d) = Inl TypeError"

subsection \<open>The built-in \<^verbatim>\<open>str\<close> and string operations\<close>

text \<open>
  \<^verbatim>\<open>str(v)\<close> of a string is the string. Of any other object it is the text the
  interpreter prints for it.
\<close>

definition py_str :: "builtins \<Rightarrow> pyobj \<Rightarrow> string" where
  "py_str py v = (case v of PStr s \<Rightarrow> s | _ \<Rightarrow> str_of_object py v)"

text \<open>
  \<^verbatim>\<open>s.lower()\<close> on the ASCII letters. The bytes of a character beyond ASCII are left
  as they are; no such character lowers to a letter of the word the program searches for.
\<close>

definition lower_char :: "char \<Rightarrow> char" where
  "lower_char c =
     (let n = (of_char c :: nat) in if 65 \<le> n \<and> n \<le> 90 then char_of (n + 32) else c)"

definition lower :: "string \<Rightarrow> string" where
  "lower s = map lower_char s"

text \<open>\<^verbatim>\<open>a in b\<close> on two strings: \<open>a\<close> occurs in \<open>b\<close> as a contiguous piece.\<close>

definition str_in :: "string \<Rightarrow> string \<Rightarrow> bool" where
  "str_in a b = sublist a b"

section \<open>The request\<close>

record Context =
  name :: string
  lifespan_count :: "int option"
  parameters :: "pydict option"

record QueryResult =
  parameters :: pydict
  intent :: pydict
  output_contexts :: "Context list option"

record WebhookRequest =
  query_result :: QueryResult

section \<open>Merging the parameters\<close>

text \<open>\<^verbatim>\<open>merged_params.update(d)\<close>: the keys of \<open>d\<close> overwrite those of the mapping.\<close>

definition dict_update :: "pydict \<Rightarrow> pydict \<Rightarrow> pydict" where
  "dict_update merged_params d = merged_params ++ d"

text \<open>
  The loop over \<^verbatim>\<open>query_result.output_contexts\<close>, one context per step. A context
  is overlaid when the marker occurs in its name and its parameters are truthy: neither
  \<^verbatim>\<open>None\<close> nor the empty dictionary.
\<close>

fun merge_contexts :: "pydict \<Rightarrow> Context list \<Rightarrow> pydict" where
  "merge_contexts merged_params [] = merged_params"
| "merge_contexts merged_params (c # cs) =
     (if str_in ''awaiting-loan-details'' (name c) then
        (case Context.parameters c of
           None \<Rightarrow> merge_contexts merged_params cs
         | Some p \<Rightarrow>
             if p \<noteq> Map.empty then merge_contexts (dict_update merged_params p) cs
             else merge_contexts merged_params cs)
      else merge_contexts merged_params cs)"

definition get_merged_parameters :: "QueryResult \<Rightarrow> pydict" where
  "get_merged_parameters qr =
     (let merged_params =
        (case output_contexts qr of
           None \<Rightarrow> Map.empty
         | Some cs \<Rightarrow> merge_contexts Map.empty cs)
      in dict_update merged_params (QueryResult.parameters qr))"

section \<open>The loan type\<close>

text \<open>
  \<^verbatim>\<open>params['loan-type']\<close> is read only after \<^verbatim>\<open>params.get('loan-type')\<close> was
  truthy, so the key is present and the subscript returns the same value.
\<close>

definition determine_loan_type :: "pydict \<Rightarrow> pyobj" where
  "determine_loan_type params =
     (if truthy (dict_get params ''loan-type'') then dict_get params ''loan-type''
      else if truthy (dict_get params ''Home_eligibility'') then PStr ''home''
      else if truthy (dict_get params ''Car_eligibility'') then PStr ''car''
      else if truthy (dict_get params ''education_eligibility'')
            \<or> truthy (dict_get params ''edu_eligibility'') then PStr ''education''
      else if truthy (dict_get params ''personal_eligibility'') then PStr ''personal''
      else if truthy (dict_get params ''Business_eligibility'') then PStr ''business''
      else PNone)"

section \<open>Extracting a parameter\<close>

text \<open>
  The optional \<^verbatim>\<open>fallback_name\<close> is \<open>None\<close> when the caller leaves it out. The code
  tests it for truthiness, so an empty name counts as none.
\<close>

definition get_parameter :: "pydict \<Rightarrow> string \<Rightarrow> string option \<Rightarrow> pyobj" where
  "get_parameter params param_name fallback_name =
     (let v = dict_get params param_name;
          v = (if v = PNone then
                 (case fallback_name of
                    None \<Rightarrow> v
                  | Some f \<Rightarrow> if f \<noteq> [] then dict_get params f else v)
               else v)
      in if v = PNone then PNone
         else case v of
             PDict d \<Rightarrow>
               (case d ''amount'' of
                  Some a \<Rightarrow> a
                | None \<Rightarrow> if v \<noteq> PStr [] then v else PNone)
           | PList xs \<Rightarrow>
               (case xs of
                  x # _ \<Rightarrow> x
                | [] \<Rightarrow> if v \<noteq> PStr [] then v else PNone)
           | _ \<Rightarrow> if v \<noteq> PStr [] then v else PNone)"

section \<open>The webhook\<close>

text \<open>
  The response texts of \<^verbatim>\<open>loan_eligibility_webhook\<close>, byte for byte. The rupee sign
  is the three bytes of its UTF-8 encoding.
\<close>

definition rupee :: string where
  "rupee = [CHR 0xE2, CHR 0x82, CHR 0xB9]"

definition undetermined_text :: string where
  "undetermined_text =
     ''I'm sorry, I couldn't determine the loan type. Please specify if it's for a car, home, education, business, or personal use.''"

definition home_eligible :: string where
  "home_eligible =
     ''Excellent! Based on your age and income, you are eligible for a home loan.''"

definition home_ineligible :: string where
  "home_ineligible =
     ''Sorry, you do not meet the criteria for a home loan. You must be at least 21 years old and have a minimum monthly income of '' @ rupee @ ''30,000.''"

definition home_missing :: string where
  "home_missing =
     ''To check your home loan eligibility, I need a few more details. What is your age and your monthly income?(e.g., My age is ** and I make ****)''"

definition car_eligible :: string where
  "car_eligible =
     ''Great news! You are eligible for a car loan.''"

definition car_ineligible :: string where
  "car_ineligible =
     ''Sorry, you do not meet the criteria for a car loan. You must be at least 18 years old and have a minimum monthly income of '' @ rupee @ ''20,000.''"

definition car_missing :: string where
  "car_missing =
     ''To check your eligibility for a car loan, I need to know your age and monthly income(e.g., My age is ** and I make ****).''"

definition personal_eligible :: string where
  "personal_eligible =
     ''Great news! You are eligible for a personal loan.''"

definition personal_ineligible :: string where
  "personal_ineligible =
     ''Sorry, you do not meet the criteria for a personal loan. You must be at least 25 years old and have a minimum monthly income of '' @ rupee @ ''25,000.''"

definition personal_missing :: string where
  "personal_missing =
     ''To check your eligibility for a personal loan, I need to know your age and monthly income(e.g., My age is ** and I make ****).''"

definition education_eligible :: string where
  "education_eligible =
     ''Congratulations! You are eligible for an education loan.''"

definition education_ineligible :: string where
  "education_ineligible =
     ''Sorry, you do not meet the criteria for an education loan. You must be a graduate and no older than 30.''"

definition education_missing :: string where
  "education_missing =
     ''To check your eligibility for an education loan, I need your age and qualification (e.g.,My age is ** and 'under graduate'or 'post graduate').''"

definition business_eligible :: string where
  "business_eligible =
     ''Fantastic! You are eligible for a business loan.''"

definition business_ineligible :: string where
  "business_ineligible =
     ''Sorry, to be eligible for a business loan, your minimum monthly income must be at least '' @ rupee @ ''40,000.''"

definition business_missing :: string where
  "business_missing =
     ''To check your eligibility for a business loan, I need to know your monthly income(e.g., My age is ** and I make ****).''"

text \<open>
  The conditions of the eligibility checks. \<^verbatim>\<open>and\<close> evaluates its right operand
  only when the left one is true, so a coercion on the right raises only then. A raised
  exception is the result \<open>Inl\<close>.
\<close>

definition age_and_income_at_least ::
  "builtins \<Rightarrow> pyobj \<Rightarrow> int \<Rightarrow> pyobj \<Rightarrow> int \<Rightarrow> error + bool" where
  "age_and_income_at_least py age min_age income min_income =
     (case py_int py age of
        Inl e \<Rightarrow> Inl e
      | Inr a \<Rightarrow>
          if a \<ge> min_age then
            (case py_int py income of
               Inl e \<Rightarrow> Inl e
             | Inr i \<Rightarrow> Inr (i \<ge> min_income))
          else Inr False)"

definition graduate_and_age_at_most ::
  "builtins \<Rightarrow> pyobj \<Rightarrow> pyobj \<Rightarrow> int \<Rightarrow> error + bool" where
  "graduate_and_age_at_most py qualification age max_age =
     (if str_in ''graduate'' (lower (py_str py qualification)) then
        (case py_int py age of
           Inl e \<Rightarrow> Inl e
         | Inr a \<Rightarrow> Inr (a \<le> max_age))
      else Inr False)"

definition income_at_least :: "builtins \<Rightarrow> pyobj \<Rightarrow> int \<Rightarrow> error + bool" where
  "income_at_least py income min_income =
     (case py_int py income of
        Inl e \<Rightarrow> Inl e
      | Inr i \<Rightarrow> Inr (i \<ge> min_income))"

text \<open>The assignment to \<^verbatim>\<open>response_text\<close> in the two branches of a check.\<close>

definition respond :: "error + bool \<Rightarrow> string \<Rightarrow> string \<Rightarrow> error + string" where
  "respond cond yes no =
     (case cond of
        Inl e \<Rightarrow> Inl e
      | Inr b \<Rightarrow> Inr (if b then yes else no))"

text \<open>
  The eligibility logic of the handler: the chain of tests on \<^verbatim>\<open>loan_type\<close> and the
  three extracted values. \<^verbatim>\<open>response_text\<close> starts as the text for an undetermined
  loan type and stays so when no test on the loan type succeeds.
\<close>

definition eligibility_logic ::
  "builtins \<Rightarrow> pyobj \<Rightarrow> pyobj \<Rightarrow> pyobj \<Rightarrow> pyobj \<Rightarrow> error + string" where
  "eligibility_logic py loan_type age income qualification =
     (if loan_type = PStr ''home'' then
        (if age \<noteq> PNone \<and> income \<noteq> PNone then
           respond (age_and_income_at_least py age 21 income 30000) home_eligible home_ineligible
         else Inr home_missing)
      else if loan_type = PStr ''car'' then
        (if age \<noteq> PNone \<and> income \<noteq> PNone then
           respond (age_and_income_at_least py age 18 income 20000) car_eligible car_ineligible
         else Inr car_missing)
      else if loan_type = PStr ''personal'' then
        (if age \<noteq> PNone \<and> income \<noteq> PNone then
           respond (age_and_income_at_least py age 25 income 25000)
             personal_eligible personal_ineligible
         else Inr personal_missing)
      else if loan_type = PStr ''education'' then
        (if age \<noteq> PNone \<and> qualification \<noteq> PNone then
           respond (graduate_and_age_at_most py qualification age 30)
             education_eligible education_ineligible
         else Inr education_missing)
      else if loan_type = PStr ''business'' then
        (if income \<noteq> PNone then
           respond (income_at_least py income 40000) business_eligible business_ineligible
         else Inr business_missing)
      else Inr undetermined_text)"

text \<open>
  The handler returns \<^verbatim>\<open>{"fulfillmentText": response_text}\<close>; the model returns the
  text, or the exception that leaves the handler. The debug output and the timing do not
  enter the response and are left out.
\<close>

definition loan_eligibility_webhook :: "builtins \<Rightarrow> WebhookRequest \<Rightarrow> error + string" where
  "loan_eligibility_webhook py request =
     (let params = get_merged_parameters (query_result request);
          loan_type = determine_loan_type params;
          age = get_parameter params ''age'' (Some ''number'');
          income = get_parameter params ''income'' (Some ''number'');
          qualification = get_parameter params ''qualification'' None
      in eligibility_logic py loan_type age income qualification)"

section \<open>Reference definitions and sample requests\<close>

text \<open>
  The merge as the specification words it: the contexts that match are those whose name
  contains the marker and whose parameters are a non-empty mapping; their parameters are
  overlaid from left to right.
\<close>

definition context_matches :: "Context \<Rightarrow> bool" where
  "context_matches c =
     (str_in ''awaiting-loan-details'' (name c) \<and>
      (case Context.parameters c of None \<Rightarrow> False | Some p \<Rightarrow> p \<noteq> Map.empty))"

definition context_parameters :: "Context \<Rightarrow> pydict" where
  "context_parameters c = (case Context.parameters c of None \<Rightarrow> Map.empty | Some p \<Rightarrow> p)"

definition overlay_in_order :: "Context list \<Rightarrow> pydict" where
  "overlay_in_order cs =
     foldl (\<lambda>m c. m ++ context_parameters c) Map.empty (filter context_matches cs)"

definition contexts_of :: "QueryResult \<Rightarrow> Context list" where
  "contexts_of qr = (case output_contexts qr of None \<Rightarrow> [] | Some cs \<Rightarrow> cs)"

text \<open>A request that carries the parameters of the current turn and no context.\<close>

definition turn_only :: "pydict \<Rightarrow> WebhookRequest" where
  "turn_only p =
     \<lparr>query_result = \<lparr>QueryResult.parameters = p, intent = Map.empty, output_contexts = Some []\<rparr>\<rparr>"

text \<open>A request whose current turn follows a list of contexts.\<close>

definition turn_after :: "Context list \<Rightarrow> pydict \<Rightarrow> QueryResult" where
  "turn_after cs p = \<lparr>QueryResult.parameters = p, intent = Map.empty, output_contexts = Some cs\<rparr>"

definition followup :: "string \<Rightarrow> pydict \<Rightarrow> Context" where
  "followup n p = \<lparr>name = n, lifespan_count = Some 2, Context.parameters = Some p\<rparr>"

text \<open>
  The examples below give \<^verbatim>\<open>str\<close> strings only and \<^verbatim>\<open>int\<close> short ASCII
  strings only, so they do not depend on the parameters. Where a closed statement needs a
  value for them, it is this one.
\<close>

definition plain :: builtins where
  "plain = \<lparr>str_of_object = (\<lambda>v. []), int_of_literal = (\<lambda>s. Inl ValueError)\<rparr>"

section \<open>Facts about the response texts and the checks\<close>

lemma eligible_neq_ineligible:
  "home_eligible \<noteq> home_ineligible" "car_eligible \<noteq> car_ineligible"
  "personal_eligible \<noteq> personal_ineligible" "education_eligible \<noteq> education_ineligible"
  "business_eligible \<noteq> business_ineligible"
  by (simp_all add: home_eligible_def home_ineligible_def car_eligible_def car_ineligible_def
      personal_eligible_def personal_ineligible_def education_eligible_def
      education_ineligible_def business_eligible_def business_ineligible_def)

lemma missing_neq_ineligible:
  "home_missing \<noteq> home_ineligible" "car_missing \<noteq> car_ineligible"
  "personal_missing \<noteq> personal_ineligible" "education_missing \<noteq> education_ineligible"
  "business_missing \<noteq> business_ineligible"
  by (simp_all add: home_missing_def home_ineligible_def car_missing_def car_ineligible_def
      personal_missing_def personal_ineligible_def education_missing_def
      education_ineligible_def business_missing_def business_ineligible_def)

lemma missing_neq_eligible:
  "home_missing \<noteq> home_eligible" "car_missing \<noteq> car_eligible"
  "personal_missing \<noteq> personal_eligible" "education_missing \<noteq> education_eligible"
  "business_missing \<noteq> business_eligible"
  by (simp_all add: home_missing_def home_eligible_def car_missing_def car_eligible_def
      personal_missing_def personal_eligible_def education_missing_def
      education_eligible_def business_missing_def business_eligible_def)

lemma respond_Inr: "respond (Inr b) yes no = Inr (if b then yes else no)"
  by (simp add: respond_def)

lemma respond_Inl: "respond (Inl e) yes no = Inl e"
  by (simp add: respond_def)

lemma respond_neq_other:
  "other \<noteq> yes \<Longrightarrow> other \<noteq> no \<Longrightarrow> respond cond yes no \<noteq> Inr other"
  by (cases cond) (auto simp: respond_def)

lemma age_and_income_coerced:
  "py_int py age = Inr a \<Longrightarrow> py_int py income = Inr i \<Longrightarrow>
   age_and_income_at_least py age min_age income min_income = Inr (min_age \<le> a \<and> min_income \<le> i)"
  by (simp add: age_and_income_at_least_def)

lemma graduate_and_age_coerced:
  "py_int py age = Inr a \<Longrightarrow>
   graduate_and_age_at_most py qualification age max_age =
     Inr (str_in ''graduate'' (lower (py_str py qualification)) \<and> a \<le> max_age)"
  by (simp add: graduate_and_age_at_most_def)

lemma age_below_minimum:
  "py_int py age = Inr a \<Longrightarrow> a < min_age \<Longrightarrow>
   age_and_income_at_least py age min_age income min_income = Inr False"
  by (simp add: age_and_income_at_least_def)

lemma not_graduate:
  "\<not> str_in ''graduate'' (lower (py_str py qualification)) \<Longrightarrow>
   graduate_and_age_at_most py qualification age max_age = Inr False"
  by (simp add: graduate_and_age_at_most_def)

lemma income_coerced:
  "py_int py income = Inr i \<Longrightarrow> income_at_least py income min_income = Inr (min_income \<le> i)"
  by (simp add: income_at_least_def)

lemma webhook_is_logic:
  "loan_eligibility_webhook py request =
     eligibility_logic py
       (determine_loan_type (get_merged_parameters (query_result request)))
       (get_parameter (get_merged_parameters (query_result request)) ''age'' (Some ''number''))
       (get_parameter (get_merged_parameters (query_result request)) ''income'' (Some ''number''))
       (get_parameter (get_merged_parameters (query_result request)) ''qualification'' None)"
  by (simp add: loan_eligibility_webhook_def Let_def)

lemma logic_home:
  "eligibility_logic py (PStr ''home'') age income q =
     (if age \<noteq> PNone \<and> income \<noteq> PNone
      then respond (age_and_income_at_least py age 21 income 30000) home_eligible home_ineligible
      else Inr home_missing)"
  by (simp add: eligibility_logic_def)

lemma logic_car:
  "eligibility_logic py (PStr ''car'') age income q =
     (if age \<noteq> PNone \<and> income \<noteq> PNone
      then respond (age_and_income_at_least py age 18 income 20000) car_eligible car_ineligible
      else Inr car_missing)"
  by (simp add: eligibility_logic_def)

lemma logic_personal:
  "eligibility_logic py (PStr ''personal'') age income q =
     (if age \<noteq> PNone \<and> income \<noteq> PNone
      then respond (age_and_income_at_least py age 25 income 25000)
             personal_eligible personal_ineligible
      else Inr personal_missing)"
  by (simp add: eligibility_logic_def)

lemma logic_education:
  "eligibility_logic py (PStr ''education'') age income q =
     (if age \<noteq> PNone \<and> q \<noteq> PNone
      then respond (graduate_and_age_at_most py q age 30)
             education_eligible education_ineligible
      else Inr education_missing)"
  by (simp add: eligibility_logic_def)

lemma logic_business:
  "eligibility_logic py (PStr ''business'') age income q =
     (if income \<noteq> PNone
      then respond (income_at_least py income 40000) business_eligible business_ineligible
      else Inr business_missing)"
  by (simp add: eligibility_logic_def)

lemma merged_turn_only: "get_merged_parameters (query_result (turn_only p)) = p"
  by (simp add: turn_only_def get_merged_parameters_def dict_update_def)

section \<open>Home, car and personal loans\<close>

text \<open>
  What the handler does for these products when the coercions succeed. With the extracted
  age and income both present and coerced to the integers \<open>a\<close> and \<open>i\<close>, the
  response is the eligible text exactly when the thresholds of the product hold (home:
  \<open>a \<ge> 21\<close> and \<open>i \<ge> 30000\<close>; car: \<open>a \<ge> 18\<close> and \<open>i \<ge> 20000\<close>; personal:
  \<open>a \<ge> 25\<close> and \<open>i \<ge> 25000\<close>), and the ineligible text of the product otherwise.
\<close>

lemma thresholds_when_coercible:
  assumes "params = get_merged_parameters (query_result request)"
    and "age = get_parameter params ''age'' (Some ''number'')"
    and "income = get_parameter params ''income'' (Some ''number'')"
    and "age \<noteq> PNone" and "income \<noteq> PNone"
    and "py_int py age = Inr a" and "py_int py income = Inr i"
  shows "(determine_loan_type params = PStr ''home'' \<longrightarrow>
            loan_eligibility_webhook py request =
              Inr (if a \<ge> 21 \<and> i \<ge> 30000 then home_eligible else home_ineligible) \<and>
            (loan_eligibility_webhook py request = Inr home_eligible
               \<longleftrightarrow> a \<ge> 21 \<and> i \<ge> 30000)) \<and>
         (determine_loan_type params = PStr ''car'' \<longrightarrow>
            loan_eligibility_webhook py request =
              Inr (if a \<ge> 18 \<and> i \<ge> 20000 then car_eligible else car_ineligible) \<and>
            (loan_eligibility_webhook py request = Inr car_eligible
               \<longleftrightarrow> a \<ge> 18 \<and> i \<ge> 20000)) \<and>
         (determine_loan_type params = PStr ''personal'' \<longrightarrow>
            loan_eligibility_webhook py request =
              Inr (if a \<ge> 25 \<and> i \<ge> 25000 then personal_eligible else personal_ineligible) \<and>
            (loan_eligibility_webhook py request = Inr personal_eligible
               \<longleftrightarrow> a \<ge> 25 \<and> i \<ge> 25000))"
proof -
  have w: "loan_eligibility_webhook py request =
      eligibility_logic py (determine_loan_type params) age income
        (get_parameter params ''qualification'' None)"
    using assms(1-3) by (simp add: webhook_is_logic)
  have home: "determine_loan_type params = PStr ''home'' \<Longrightarrow>
      loan_eligibility_webhook py request =
        Inr (if a \<ge> 21 \<and> i \<ge> 30000 then home_eligible else home_ineligible)"
    using assms(4-7) by (simp add: w logic_home age_and_income_coerced respond_Inr)
  have car: "determine_loan_type params = PStr ''car'' \<Longrightarrow>
      loan_eligibility_webhook py request =
        Inr (if a \<ge> 18 \<and> i \<ge> 20000 then car_eligible else car_ineligible)"
    using assms(4-7) by (simp add: w logic_car age_and_income_coerced respond_Inr)
  have personal: "determine_loan_type params = PStr ''personal'' \<Longrightarrow>
      loan_eligibility_webhook py request =
        Inr (if a \<ge> 25 \<and> i \<ge> 25000 then personal_eligible else personal_ineligible)"
    using assms(4-7) by (simp add: w logic_personal age_and_income_coerced respond_Inr)
  show ?thesis
    using home car personal eligible_neq_ineligible(1-3)
    by (auto simp del: One_nat_def)
qed

text \<open>
  An age under the minimum decides alone: the income is then not coerced, and the response
  is the ineligible text whatever the income is.
\<close>

lemma under_age_whatever_the_income:
  assumes "params = get_merged_parameters (query_result request)"
    and "age = get_parameter params ''age'' (Some ''number'')"
    and "income = get_parameter params ''income'' (Some ''number'')"
    and "age \<noteq> PNone" and "income \<noteq> PNone"
    and "py_int py age = Inr a"
  shows "(determine_loan_type params = PStr ''home'' \<and> a < 21 \<longrightarrow>
            loan_eligibility_webhook py request = Inr home_ineligible) \<and>
         (determine_loan_type params = PStr ''car'' \<and> a < 18 \<longrightarrow>
            loan_eligibility_webhook py request = Inr car_ineligible) \<and>
         (determine_loan_type params = PStr ''personal'' \<and> a < 25 \<longrightarrow>
            loan_eligibility_webhook py request = Inr personal_ineligible)"
proof -
  have w: "loan_eligibility_webhook py request =
      eligibility_logic py (determine_loan_type params) age income
        (get_parameter params ''qualification'' None)"
    using assms(1-3) by (simp add: webhook_is_logic)
  have home: "determine_loan_type params = PStr ''home'' \<and> a < 21 \<longrightarrow>
      loan_eligibility_webhook py request = Inr home_ineligible"
    using assms(4-6) by (simp add: w logic_home age_below_minimum respond_Inr)
  have car: "determine_loan_type params = PStr ''car'' \<and> a < 18 \<longrightarrow>
      loan_eligibility_webhook py request = Inr car_ineligible"
    using assms(4-6) by (simp add: w logic_car age_below_minimum respond_Inr)
  have personal: "determine_loan_type params = PStr ''personal'' \<and> a < 25 \<longrightarrow>
      loan_eligibility_webhook py request = Inr personal_ineligible"
    using assms(4-6) by (simp add: w logic_personal age_below_minimum respond_Inr)
  show ?thesis
    using home car personal by blast
qed

lemma int_of_21: "int_of_string py ''21'' = Inr 21"
  by (simp add: int_of_string_def ascii_literal_def is_ascii_def strip_def is_space_def
      is_digit_def digit_value_def)

text \<open>
  Three requests: a home loan at both thresholds, with the age a string and the income in
  the structured form; a car loan under the age threshold; a personal loan whose age and
  income both come from the fallback key.
\<close>

lemma thresholds_examples:
  "determine_loan_type [''loan-type'' \<mapsto> PStr ''home'', ''age'' \<mapsto> PStr ''21'',
       ''income'' \<mapsto> PDict [''amount'' \<mapsto> PInt 30000, ''currency'' \<mapsto> PStr ''INR'']]
     = PStr ''home'' \<and>
   loan_eligibility_webhook plain
     (turn_only [''loan-type'' \<mapsto> PStr ''home'', ''age'' \<mapsto> PStr ''21'',
        ''income'' \<mapsto> PDict [''amount'' \<mapsto> PInt 30000, ''currency'' \<mapsto> PStr ''INR'']])
     = Inr home_eligible \<and>
   determine_loan_type [''Car_eligibility'' \<mapsto> PStr ''car loan'', ''age'' \<mapsto> PInt 17,
       ''income'' \<mapsto> PInt 50000] = PStr ''car'' \<and>
   loan_eligibility_webhook plain
     (turn_only [''Car_eligibility'' \<mapsto> PStr ''car loan'', ''age'' \<mapsto> PInt 17,
        ''income'' \<mapsto> PInt 50000])
     = Inr car_ineligible \<and>
   determine_loan_type [''loan-type'' \<mapsto> PStr ''personal'', ''number'' \<mapsto> PInt 25000]
     = PStr ''personal'' \<and>
   loan_eligibility_webhook plain
     (turn_only [''loan-type'' \<mapsto> PStr ''personal'', ''number'' \<mapsto> PInt 25000])
     = Inr personal_eligible"
proof -
  let ?h = "[''loan-type'' \<mapsto> PStr ''home'', ''age'' \<mapsto> PStr ''21'',
       ''income'' \<mapsto> PDict [''amount'' \<mapsto> PInt 30000, ''currency'' \<mapsto> PStr ''INR'']]"
  let ?c = "[''Car_eligibility'' \<mapsto> PStr ''car loan'', ''age'' \<mapsto> PInt 17,
       ''income'' \<mapsto> PInt 50000]"
  let ?p = "[''loan-type'' \<mapsto> PStr ''personal'', ''number'' \<mapsto> PInt 25000]"
  have ht: "determine_loan_type ?h = PStr ''home''"
    by (simp add: determine_loan_type_def dict_get_def)
  have ha: "get_parameter ?h ''age'' (Some ''number'') = PStr ''21''"
    by (simp add: get_parameter_def dict_get_def)
  have hi: "get_parameter ?h ''income'' (Some ''number'') = PInt 30000"
    by (simp add: get_parameter_def dict_get_def)
  have ct: "determine_loan_type ?c = PStr ''car''"
    by (simp add: determine_loan_type_def dict_get_def)
  have ca: "get_parameter ?c ''age'' (Some ''number'') = PInt 17"
    by (simp add: get_parameter_def dict_get_def)
  have ci: "get_parameter ?c ''income'' (Some ''number'') = PInt 50000"
    by (simp add: get_parameter_def dict_get_def)
  have pt: "determine_loan_type ?p = PStr ''personal''"
    by (simp add: determine_loan_type_def dict_get_def)
  have pa: "get_parameter ?p ''age'' (Some ''number'') = PInt 25000"
    by (simp add: get_parameter_def dict_get_def)
  have pi: "get_parameter ?p ''income'' (Some ''number'') = PInt 25000"
    by (simp add: get_parameter_def dict_get_def)
  have h: "loan_eligibility_webhook plain (turn_only ?h) = Inr home_eligible"
    using thresholds_when_coercible [of ?h "turn_only ?h" "PStr ''21''" "PInt 30000" plain 21 30000]
    by (simp add: merged_turn_only ht ha hi int_of_21)
  have c: "loan_eligibility_webhook plain (turn_only ?c) = Inr car_ineligible"
    using thresholds_when_coercible [of ?c "turn_only ?c" "PInt 17" "PInt 50000" plain 17 50000]
    by (simp add: merged_turn_only ct ca ci)
  have p: "loan_eligibility_webhook plain (turn_only ?p) = Inr personal_eligible"
    using thresholds_when_coercible [of ?p "turn_only ?p" "PInt 25000" "PInt 25000" plain 25000
        25000]
    by (simp add: merged_turn_only pt pa pi)
  show ?thesis using ht ct pt h c p by simp
qed

lemma int_of_abc: "int_of_string py ''abc'' = Inl ValueError"
  by (simp add: int_of_string_def ascii_literal_def is_ascii_def strip_def is_space_def
      is_digit_def)

text \<open>
  Claim C1 says that for a home, car or personal loan whose extracted age and income are
  both present the response is the eligible text when the coerced values meet the
  thresholds, and the ineligible text of the product otherwise. The code does not answer
  where a coercion raises: for a home loan with the age \<^verbatim>\<open>abc\<close> and the income
  50000 both values are present, \<^verbatim>\<open>int\<close> raises \<^verbatim>\<open>ValueError\<close>, and the
  exception leaves the handler in place of the ineligible text.
\<close>

theorem home_loan_with_non_numeric_age_raises:
  "determine_loan_type (get_merged_parameters (query_result (turn_only
       [''loan-type'' \<mapsto> PStr ''home'', ''age'' \<mapsto> PStr ''abc'', ''income'' \<mapsto> PInt 50000])))
     = PStr ''home'' \<and>
   get_parameter (get_merged_parameters (query_result (turn_only
       [''loan-type'' \<mapsto> PStr ''home'', ''age'' \<mapsto> PStr ''abc'', ''income'' \<mapsto> PInt 50000])))
       ''age'' (Some ''number'') = PStr ''abc'' \<and>
   get_parameter (get_merged_parameters (query_result (turn_only
       [''loan-type'' \<mapsto> PStr ''home'', ''age'' \<mapsto> PStr ''abc'', ''income'' \<mapsto> PInt 50000])))
       ''income'' (Some ''number'') = PInt 50000 \<and>
   loan_eligibility_webhook py (turn_only
       [''loan-type'' \<mapsto> PStr ''home'', ''age'' \<mapsto> PStr ''abc'', ''income'' \<mapsto> PInt 50000])
     = Inl ValueError"
proof -
  let ?m = "[''loan-type'' \<mapsto> PStr ''home'', ''age'' \<mapsto> PStr ''abc'', ''income'' \<mapsto> PInt 50000]"
  have t: "determine_loan_type ?m = PStr ''home''"
    by (simp add: determine_loan_type_def dict_get_def)
  have a: "get_parameter ?m ''age'' (Some ''number'') = PStr ''abc''"
    by (simp add: get_parameter_def dict_get_def)
  have i: "get_parameter ?m ''income'' (Some ''number'') = PInt 50000"
    by (simp add: get_parameter_def dict_get_def)
  have "loan_eligibility_webhook py (turn_only ?m) = Inl ValueError"
    by (simp add: webhook_is_logic merged_turn_only t a i logic_home
        age_and_income_at_least_def int_of_abc respond_Inl)
  then show ?thesis
    by (simp add: merged_turn_only t a i)
qed

section \<open>Education loans\<close>

text \<open>
  What the handler does for an education loan when the coercion succeeds. With the
  extracted age and qualification both present and the age coerced to the integer \<open>a\<close>,
  the response is the eligible text exactly when the lowered text of the qualification
  contains \<^verbatim>\<open>graduate\<close> and \<open>a \<le> 30\<close>, and the education ineligible text
  otherwise.
\<close>

lemma education_when_coercible:
  assumes "params = get_merged_parameters (query_result request)"
    and "age = get_parameter params ''age'' (Some ''number'')"
    and "qualification = get_parameter params ''qualification'' None"
    and "determine_loan_type params = PStr ''education''"
    and "age \<noteq> PNone" and "qualification \<noteq> PNone"
    and "py_int py age = Inr a"
  shows "loan_eligibility_webhook py request =
           Inr (if str_in ''graduate'' (lower (py_str py qualification)) \<and> a \<le> 30
                then education_eligible else education_ineligible) \<and>
         (loan_eligibility_webhook py request = Inr education_eligible
            \<longleftrightarrow> str_in ''graduate'' (lower (py_str py qualification)) \<and> a \<le> 30)"
proof -
  have w: "loan_eligibility_webhook py request =
      eligibility_logic py (PStr ''education'') age
        (get_parameter params ''income'' (Some ''number'')) qualification"
    using assms(1-4) by (simp add: webhook_is_logic)
  have r: "loan_eligibility_webhook py request =
      Inr (if str_in ''graduate'' (lower (py_str py qualification)) \<and> a \<le> 30
           then education_eligible else education_ineligible)"
    using assms(5-7) by (simp add: w logic_education graduate_and_age_coerced respond_Inr)
  show ?thesis
    using r eligible_neq_ineligible(4) by auto
qed

text \<open>
  A qualification without the word decides alone: the age is then not coerced, and the
  response is the ineligible text whatever the age is.
\<close>

lemma not_graduate_whatever_the_age:
  assumes "params = get_merged_parameters (query_result request)"
    and "age = get_parameter params ''age'' (Some ''number'')"
    and "qualification = get_parameter params ''qualification'' None"
    and "determine_loan_type params = PStr ''education''"
    and "age \<noteq> PNone" and "qualification \<noteq> PNone"
    and "\<not> str_in ''graduate'' (lower (py_str py qualification))"
  shows "loan_eligibility_webhook py request = Inr education_ineligible"
proof -
  have "loan_eligibility_webhook py request =
      eligibility_logic py (PStr ''education'') age
        (get_parameter params ''income'' (Some ''number'')) qualification"
    using assms(1-4) by (simp add: webhook_is_logic)
  then show ?thesis
    using assms(5-7) by (simp add: logic_education not_graduate respond_Inr)
qed

lemma graduate_in_under_graduate: "str_in ''graduate'' (lower ''Under Graduate'')"
  by code_simp

lemma graduate_in_post_graduate: "str_in ''graduate'' (lower ''Post Graduate'')"
  by code_simp

lemma graduate_not_in_high_school: "\<not> str_in ''graduate'' (lower ''High School'')"
  by code_simp

text \<open>
  The three requests of claim C2, on which the code agrees with it:
  \<^verbatim>\<open>Under Graduate\<close> at 30 is eligible, \<^verbatim>\<open>High School\<close> at 30 and
  \<^verbatim>\<open>Post Graduate\<close> at 31 are not.
\<close>

lemma education_examples:
  "loan_eligibility_webhook plain
     (turn_only [''loan-type'' \<mapsto> PStr ''education'', ''age'' \<mapsto> PInt 30,
        ''qualification'' \<mapsto> PStr ''Under Graduate'']) = Inr education_eligible \<and>
   loan_eligibility_webhook plain
     (turn_only [''loan-type'' \<mapsto> PStr ''education'', ''age'' \<mapsto> PInt 30,
        ''qualification'' \<mapsto> PStr ''High School'']) = Inr education_ineligible \<and>
   loan_eligibility_webhook plain
     (turn_only [''loan-type'' \<mapsto> PStr ''education'', ''age'' \<mapsto> PInt 31,
        ''qualification'' \<mapsto> PStr ''Post Graduate'']) = Inr education_ineligible"
proof -
  let ?u = "[''loan-type'' \<mapsto> PStr ''education'', ''age'' \<mapsto> PInt 30,
        ''qualification'' \<mapsto> PStr ''Under Graduate'']"
  let ?h = "[''loan-type'' \<mapsto> PStr ''education'', ''age'' \<mapsto> PInt 30,
        ''qualification'' \<mapsto> PStr ''High School'']"
  let ?p = "[''loan-type'' \<mapsto> PStr ''education'', ''age'' \<mapsto> PInt 31,
        ''qualification'' \<mapsto> PStr ''Post Graduate'']"
  have ut: "determine_loan_type ?u = PStr ''education''"
    by (simp add: determine_loan_type_def dict_get_def)
  have ua: "get_parameter ?u ''age'' (Some ''number'') = PInt 30"
    by (simp add: get_parameter_def dict_get_def)
  have uq: "get_parameter ?u ''qualification'' None = PStr ''Under Graduate''"
    by (simp add: get_parameter_def dict_get_def)
  have ht: "determine_loan_type ?h = PStr ''education''"
    by (simp add: determine_loan_type_def dict_get_def)
  have ha: "get_parameter ?h ''age'' (Some ''number'') = PInt 30"
    by (simp add: get_parameter_def dict_get_def)
  have hq: "get_parameter ?h ''qualification'' None = PStr ''High School''"
    by (simp add: get_parameter_def dict_get_def)
  have pt: "determine_loan_type ?p = PStr ''education''"
    by (simp add: determine_loan_type_def dict_get_def)
  have pa: "get_parameter ?p ''age'' (Some ''number'') = PInt 31"
    by (simp add: get_parameter_def dict_get_def)
  have pq: "get_parameter ?p ''qualification'' None = PStr ''Post Graduate''"
    by (simp add: get_parameter_def dict_get_def)
  have u: "loan_eligibility_webhook plain (turn_only ?u) = Inr education_eligible"
    using education_when_coercible [of ?u "turn_only ?u" "PInt 30" "PStr ''Under Graduate''"
        plain 30]
    by (simp add: merged_turn_only ut ua uq py_str_def graduate_in_under_graduate)
  have h: "loan_eligibility_webhook plain (turn_only ?h) = Inr education_ineligible"
    using education_when_coercible [of ?h "turn_only ?h" "PInt 30" "PStr ''High School''"
        plain 30]
    by (simp add: merged_turn_only ht ha hq py_str_def graduate_not_in_high_school)
  have p: "loan_eligibility_webhook plain (turn_only ?p) = Inr education_ineligible"
    using education_when_coercible [of ?p "turn_only ?p" "PInt 31" "PStr ''Post Graduate''"
        plain 31]
    by (simp add: merged_turn_only pt pa pq py_str_def graduate_in_post_graduate)
  show ?thesis using u h p by simp
qed

lemma int_of_thirty: "int_of_string py ''thirty'' = Inl ValueError"
  by (simp add: int_of_string_def ascii_literal_def is_ascii_def strip_def is_space_def
      is_digit_def)

lemma graduate_in_graduate: "str_in ''graduate'' (lower ''graduate'')"
  by code_simp

text \<open>
  Claim C2 says that for an education loan whose extracted age and qualification are both
  present the response is the eligible text when the qualification contains
  \<^verbatim>\<open>graduate\<close> and the coerced age is at most 30, and the ineligible text otherwise.
  The code does not answer where the coercion raises: for the qualification
  \<^verbatim>\<open>graduate\<close> and the age \<^verbatim>\<open>thirty\<close> both values are present,
  \<^verbatim>\<open>int\<close> raises \<^verbatim>\<open>ValueError\<close>, and the exception leaves the handler in
  place of the ineligible text.
\<close>

theorem education_loan_with_worded_age_raises:
  "determine_loan_type (get_merged_parameters (query_result (turn_only
       [''loan-type'' \<mapsto> PStr ''education'', ''age'' \<mapsto> PStr ''thirty'',
        ''qualification'' \<mapsto> PStr ''graduate''])))
     = PStr ''education'' \<and>
   get_parameter (get_merged_parameters (query_result (turn_only
       [''loan-type'' \<mapsto> PStr ''education'', ''age'' \<mapsto> PStr ''thirty'',
        ''qualification'' \<mapsto> PStr ''graduate''])))
       ''age'' (Some ''number'') = PStr ''thirty'' \<and>
   get_parameter (get_merged_parameters (query_result (turn_only
       [''loan-type'' \<mapsto> PStr ''education'', ''age'' \<mapsto> PStr ''thirty'',
        ''qualification'' \<mapsto> PStr ''graduate''])))
       ''qualification'' None = PStr ''graduate'' \<and>
   loan_eligibility_webhook py (turn_only
       [''loan-type'' \<mapsto> PStr ''education'', ''age'' \<mapsto> PStr ''thirty'',
        ''qualification'' \<mapsto> PStr ''graduate''])
     = Inl ValueError"
proof -
  let ?m = "[''loan-type'' \<mapsto> PStr ''education'', ''age'' \<mapsto> PStr ''thirty'',
        ''qualification'' \<mapsto> PStr ''graduate'']"
  have t: "determine_loan_type ?m = PStr ''education''"
    by (simp add: determine_loan_type_def dict_get_def)
  have a: "get_parameter ?m ''age'' (Some ''number'') = PStr ''thirty''"
    by (simp add: get_parameter_def dict_get_def)
  have q: "get_parameter ?m ''qualification'' None = PStr ''graduate''"
    by (simp add: get_parameter_def dict_get_def)
  have "loan_eligibility_webhook py (turn_only ?m) = Inl ValueError"
    by (simp add: webhook_is_logic merged_turn_only t a q logic_education
        graduate_and_age_at_most_def py_str_def graduate_in_graduate int_of_thirty respond_Inl)
  then show ?thesis
    by (simp add: merged_turn_only t a q)
qed

section \<open>Business loans\<close>

text \<open>
  What the handler does for a business loan: the response is decided by the extracted
  income alone. When the income is absent it is the business prompt for the missing value;
  when the income coerces to an integer \<open>i\<close> it is the eligible text exactly when
  \<open>i \<ge> 40000\<close> and the ineligible text otherwise; and any other business request with
  the same extracted income gets the same response, whatever its age and qualification.
\<close>

lemma business_depends_on_income_only:
  assumes "params = get_merged_parameters (query_result request)"
    and "income = get_parameter params ''income'' (Some ''number'')"
    and "determine_loan_type params = PStr ''business''"
  shows "(income = PNone \<longrightarrow> loan_eligibility_webhook py request = Inr business_missing) \<and>
         (\<forall>i. py_int py income = Inr i \<longrightarrow>
            loan_eligibility_webhook py request =
              Inr (if i \<ge> 40000 then business_eligible else business_ineligible) \<and>
            (loan_eligibility_webhook py request = Inr business_eligible \<longleftrightarrow> i \<ge> 40000)) \<and>
         (\<forall>request'.
            determine_loan_type (get_merged_parameters (query_result request'))
              = PStr ''business'' \<and>
            get_parameter (get_merged_parameters (query_result request'))
              ''income'' (Some ''number'') = income \<longrightarrow>
            loan_eligibility_webhook py request' = loan_eligibility_webhook py request)"
proof -
  have w: "loan_eligibility_webhook py request =
      (if income \<noteq> PNone
       then respond (income_at_least py income 40000) business_eligible business_ineligible
       else Inr business_missing)"
    using assms by (simp add: webhook_is_logic logic_business)
  have missing: "income = PNone \<longrightarrow> loan_eligibility_webhook py request = Inr business_missing"
    by (simp add: w)
  have verdict: "loan_eligibility_webhook py request =
          Inr (if i \<ge> 40000 then business_eligible else business_ineligible) \<and>
        (loan_eligibility_webhook py request = Inr business_eligible \<longleftrightarrow> i \<ge> 40000)"
    if "py_int py income = Inr i" for i
  proof -
    from that have "income \<noteq> PNone" by auto
    with that have "loan_eligibility_webhook py request =
        Inr (if i \<ge> 40000 then business_eligible else business_ineligible)"
      by (simp add: w income_coerced respond_Inr)
    then show ?thesis using eligible_neq_ineligible(5) by auto
  qed
  have same: "loan_eligibility_webhook py request' = loan_eligibility_webhook py request"
    if "determine_loan_type (get_merged_parameters (query_result request'))
          = PStr ''business''"
      and "get_parameter (get_merged_parameters (query_result request'))
          ''income'' (Some ''number'') = income"
    for request'
  proof -
    have "loan_eligibility_webhook py request' =
        (if income \<noteq> PNone
         then respond (income_at_least py income 40000) business_eligible business_ineligible
         else Inr business_missing)"
      using that by (simp add: webhook_is_logic logic_business)
    then show ?thesis by (simp only: w)
  qed
  show ?thesis using missing verdict same by blast
qed

text \<open>
  Requests that carry nothing but the loan type and the income: 40000 is eligible, 39999
  is not, and without an income the prompt is returned.
\<close>

lemma business_examples:
  "loan_eligibility_webhook plain
     (turn_only [''loan-type'' \<mapsto> PStr ''business'', ''income'' \<mapsto> PInt 40000])
     = Inr business_eligible \<and>
   loan_eligibility_webhook plain
     (turn_only [''loan-type'' \<mapsto> PStr ''business'', ''income'' \<mapsto> PInt 39999])
     = Inr business_ineligible \<and>
   loan_eligibility_webhook plain
     (turn_only [''Business_eligibility'' \<mapsto> PStr ''business loan''])
     = Inr business_missing"
proof -
  let ?a = "[''loan-type'' \<mapsto> PStr ''business'', ''income'' \<mapsto> PInt 40000]"
  let ?b = "[''loan-type'' \<mapsto> PStr ''business'', ''income'' \<mapsto> PInt 39999]"
  let ?c = "[''Business_eligibility'' \<mapsto> PStr ''business loan'']"
  have at: "determine_loan_type ?a = PStr ''business''"
    by (simp add: determine_loan_type_def dict_get_def)
  have ai: "get_parameter ?a ''income'' (Some ''number'') = PInt 40000"
    by (simp add: get_parameter_def dict_get_def)
  have bt: "determine_loan_type ?b = PStr ''business''"
    by (simp add: determine_loan_type_def dict_get_def)
  have bi: "get_parameter ?b ''income'' (Some ''number'') = PInt 39999"
    by (simp add: get_parameter_def dict_get_def)
  have ct: "determine_loan_type ?c = PStr ''business''"
    by (simp add: determine_loan_type_def dict_get_def)
  have ci: "get_parameter ?c ''income'' (Some ''number'') = PNone"
    by (simp add: get_parameter_def dict_get_def)
  have a: "loan_eligibility_webhook plain (turn_only ?a) = Inr business_eligible"
    using business_depends_on_income_only [of ?a "turn_only ?a" "PInt 40000" plain]
    by (simp add: merged_turn_only at ai)
  have b: "loan_eligibility_webhook plain (turn_only ?b) = Inr business_ineligible"
    using business_depends_on_income_only [of ?b "turn_only ?b" "PInt 39999" plain]
    by (simp add: merged_turn_only bt bi)
  have c: "loan_eligibility_webhook plain (turn_only ?c) = Inr business_missing"
    using business_depends_on_income_only [of ?c "turn_only ?c" PNone plain]
    by (simp add: merged_turn_only ct ci)
  show ?thesis using a b c by simp
qed

lemma int_of_forty_thousand: "int_of_string py ''forty thousand'' = Inl ValueError"
  by (simp add: int_of_string_def ascii_literal_def is_ascii_def strip_def is_space_def
      is_digit_def)

text \<open>
  Claim C3 says that for a business loan with an income present the response is the
  eligible text when the coerced income is at least 40000 and the ineligible text
  otherwise. The code does not answer where the coercion raises: the income
  \<^verbatim>\<open>forty thousand\<close> is present, \<^verbatim>\<open>int\<close> raises \<^verbatim>\<open>ValueError\<close>, and
  the exception leaves the handler in place of the ineligible text.
\<close>

theorem business_loan_with_worded_income_raises:
  "determine_loan_type (get_merged_parameters (query_result (turn_only
       [''loan-type'' \<mapsto> PStr ''business'', ''income'' \<mapsto> PStr ''forty thousand''])))
     = PStr ''business'' \<and>
   get_parameter (get_merged_parameters (query_result (turn_only
       [''loan-type'' \<mapsto> PStr ''business'', ''income'' \<mapsto> PStr ''forty thousand''])))
       ''income'' (Some ''number'') = PStr ''forty thousand'' \<and>
   loan_eligibility_webhook py (turn_only
       [''loan-type'' \<mapsto> PStr ''business'', ''income'' \<mapsto> PStr ''forty thousand''])
     = Inl ValueError"
proof -
  let ?m = "[''loan-type'' \<mapsto> PStr ''business'', ''income'' \<mapsto> PStr ''forty thousand'']"
  have t: "determine_loan_type ?m = PStr ''business''"
    by (simp add: determine_loan_type_def dict_get_def)
  have i: "get_parameter ?m ''income'' (Some ''number'') = PStr ''forty thousand''"
    by (simp add: get_parameter_def dict_get_def)
  have "loan_eligibility_webhook py (turn_only ?m) = Inl ValueError"
    by (simp add: webhook_is_logic merged_turn_only t i logic_business
        income_at_least_def int_of_forty_thousand respond_Inl)
  then show ?thesis
    by (simp add: merged_turn_only t i)
qed

section \<open>Missing attributes\<close>

lemma get_parameter_empty_string:
  "params k = Some (PStr []) \<Longrightarrow> get_parameter params k fb = PNone"
  by (simp add: get_parameter_def dict_get_def)

lemma missing_or_not_ineligible:
  assumes "missing \<noteq> no"
    and "r = (if present then respond cond yes no else Inr missing)"
  shows "(\<not> present \<longrightarrow> r = Inr missing \<and> r \<noteq> Inr no) \<and> (r = Inr no \<longrightarrow> present)"
  using assms by auto

text \<open>
  Claim C4. For a request whose loan type is one of the five products, when an attribute
  the product requires is extracted as \<^verbatim>\<open>None\<close> the response is the prompt of the
  product for the missing values, and not its ineligible text; the ineligible text is
  returned only when every required attribute is present. An empty string under the key
  is extracted as \<^verbatim>\<open>None\<close>.
\<close>

theorem missing_attribute_prompts:
  assumes "params = get_merged_parameters (query_result request)"
    and "loan_type = determine_loan_type params"
    and "age = get_parameter params ''age'' (Some ''number'')"
    and "income = get_parameter params ''income'' (Some ''number'')"
    and "qualification = get_parameter params ''qualification'' None"
    and "r = loan_eligibility_webhook py request"
  shows "(loan_type = PStr ''home'' \<longrightarrow>
            (age = PNone \<or> income = PNone \<longrightarrow> r = Inr home_missing \<and> r \<noteq> Inr home_ineligible) \<and>
            (r = Inr home_ineligible \<longrightarrow> age \<noteq> PNone \<and> income \<noteq> PNone)) \<and>
         (loan_type = PStr ''car'' \<longrightarrow>
            (age = PNone \<or> income = PNone \<longrightarrow> r = Inr car_missing \<and> r \<noteq> Inr car_ineligible) \<and>
            (r = Inr car_ineligible \<longrightarrow> age \<noteq> PNone \<and> income \<noteq> PNone)) \<and>
         (loan_type = PStr ''personal'' \<longrightarrow>
            (age = PNone \<or> income = PNone \<longrightarrow>
               r = Inr personal_missing \<and> r \<noteq> Inr personal_ineligible) \<and>
            (r = Inr personal_ineligible \<longrightarrow> age \<noteq> PNone \<and> income \<noteq> PNone)) \<and>
         (loan_type = PStr ''education'' \<longrightarrow>
            (age = PNone \<or> qualification = PNone \<longrightarrow>
               r = Inr education_missing \<and> r \<noteq> Inr education_ineligible) \<and>
            (r = Inr education_ineligible \<longrightarrow> age \<noteq> PNone \<and> qualification \<noteq> PNone)) \<and>
         (loan_type = PStr ''business'' \<longrightarrow>
            (income = PNone \<longrightarrow> r = Inr business_missing \<and> r \<noteq> Inr business_ineligible) \<and>
            (r = Inr business_ineligible \<longrightarrow> income \<noteq> PNone)) \<and>
         (\<forall>k fb. params k = Some (PStr []) \<longrightarrow> get_parameter params k fb = PNone)"
proof -
  have r: "r = eligibility_logic py loan_type age income qualification"
    using assms by (simp add: webhook_is_logic)
  have home: "loan_type = PStr ''home'' \<Longrightarrow>
      (age = PNone \<or> income = PNone \<longrightarrow> r = Inr home_missing \<and> r \<noteq> Inr home_ineligible) \<and>
      (r = Inr home_ineligible \<longrightarrow> age \<noteq> PNone \<and> income \<noteq> PNone)"
    using missing_or_not_ineligible [OF missing_neq_ineligible(1),
        of r "age \<noteq> PNone \<and> income \<noteq> PNone"]
    by (simp add: r logic_home)
  have car: "loan_type = PStr ''car'' \<Longrightarrow>
      (age = PNone \<or> income = PNone \<longrightarrow> r = Inr car_missing \<and> r \<noteq> Inr car_ineligible) \<and>
      (r = Inr car_ineligible \<longrightarrow> age \<noteq> PNone \<and> income \<noteq> PNone)"
    using missing_or_not_ineligible [OF missing_neq_ineligible(2),
        of r "age \<noteq> PNone \<and> income \<noteq> PNone"]
    by (simp add: r logic_car)
  have personal: "loan_type = PStr ''personal'' \<Longrightarrow>
      (age = PNone \<or> income = PNone \<longrightarrow>
         r = Inr personal_missing \<and> r \<noteq> Inr personal_ineligible) \<and>
      (r = Inr personal_ineligible \<longrightarrow> age \<noteq> PNone \<and> income \<noteq> PNone)"
    using missing_or_not_ineligible [OF missing_neq_ineligible(3),
        of r "age \<noteq> PNone \<and> income \<noteq> PNone"]
    by (simp add: r logic_personal)
  have education: "loan_type = PStr ''education'' \<Longrightarrow>
      (age = PNone \<or> qualification = PNone \<longrightarrow>
         r = Inr education_missing \<and> r \<noteq> Inr education_ineligible) \<and>
      (r = Inr education_ineligible \<longrightarrow> age \<noteq> PNone \<and> qualification \<noteq> PNone)"
    using missing_or_not_ineligible [OF missing_neq_ineligible(4),
        of r "age \<noteq> PNone \<and> qualification \<noteq> PNone"]
    by (simp add: r logic_education)
  have business: "loan_type = PStr ''business'' \<Longrightarrow>
      (income = PNone \<longrightarrow> r = Inr business_missing \<and> r \<noteq> Inr business_ineligible) \<and>
      (r = Inr business_ineligible \<longrightarrow> income \<noteq> PNone)"
    using missing_or_not_ineligible [OF missing_neq_ineligible(5), of r "income \<noteq> PNone"]
    by (simp add: r logic_business)
  have empty: "\<forall>k fb. params k = Some (PStr []) \<longrightarrow> get_parameter params k fb = PNone"
    by (simp add: get_parameter_empty_string)
  show ?thesis
    using home car personal education business empty by blast
qed

text \<open>
  The theorem at a home loan whose age is the empty string, and at an education loan
  without a qualification: both get the prompt.
\<close>

theorem missing_attribute_prompts_witness:
  "get_parameter [''loan-type'' \<mapsto> PStr ''home'', ''age'' \<mapsto> PStr [], ''income'' \<mapsto> PInt 50000]
     ''age'' (Some ''number'') = PNone \<and>
   loan_eligibility_webhook plain
     (turn_only [''loan-type'' \<mapsto> PStr ''home'', ''age'' \<mapsto> PStr [], ''income'' \<mapsto> PInt 50000])
     = Inr home_missing \<and>
   loan_eligibility_webhook plain
     (turn_only [''loan-type'' \<mapsto> PStr ''home'', ''age'' \<mapsto> PStr [], ''income'' \<mapsto> PInt 50000])
     \<noteq> Inr home_ineligible \<and>
   loan_eligibility_webhook plain
     (turn_only [''edu_eligibility'' \<mapsto> PStr ''study'', ''age'' \<mapsto> PInt 40])
     = Inr education_missing"
proof -
  let ?h = "[''loan-type'' \<mapsto> PStr ''home'', ''age'' \<mapsto> PStr [], ''income'' \<mapsto> PInt 50000]"
  let ?e = "[''edu_eligibility'' \<mapsto> PStr ''study'', ''age'' \<mapsto> PInt 40]"
  have ht: "determine_loan_type ?h = PStr ''home''"
    by (simp add: determine_loan_type_def dict_get_def)
  have et: "determine_loan_type ?e = PStr ''education''"
    by (simp add: determine_loan_type_def dict_get_def)
  have eq: "get_parameter ?e ''qualification'' None = PNone"
    by (simp add: get_parameter_def dict_get_def)
  note h = missing_attribute_prompts [OF refl refl refl refl refl refl,
      of "turn_only ?h" plain, unfolded merged_turn_only]
  note e = missing_attribute_prompts [OF refl refl refl refl refl refl,
      of "turn_only ?e" plain, unfolded merged_turn_only]
  have ha: "get_parameter ?h ''age'' (Some ''number'') = PNone"
    using h by simp
  have hr: "loan_eligibility_webhook plain (turn_only ?h) = Inr home_missing \<and>
      loan_eligibility_webhook plain (turn_only ?h) \<noteq> Inr home_ineligible"
    using h ht ha by blast
  have er: "loan_eligibility_webhook plain (turn_only ?e) = Inr education_missing"
    using e et eq by blast
  show ?thesis using ha hr er by blast
qed

section \<open>The merge\<close>

text \<open>
  Claim C5. Every key of the current turn's parameters is mapped by the merged parameters
  to the value of the current turn, whatever the contexts carry for it.
\<close>

theorem current_turn_wins:
  "QueryResult.parameters qr k = Some v \<Longrightarrow> get_merged_parameters qr k = Some v"
  by (simp add: get_merged_parameters_def dict_update_def Let_def)

text \<open>
  The theorem at the request of the specification: a context carries the income 10000, the
  current turn the income 50000.
\<close>

theorem current_turn_wins_witness:
  "QueryResult.parameters
     (turn_after [followup ''awaiting-loan-details'' [''income'' \<mapsto> PInt 10000]]
        [''income'' \<mapsto> PInt 50000]) ''income'' = Some (PInt 50000) \<and>
   get_merged_parameters
     (turn_after [followup ''awaiting-loan-details'' [''income'' \<mapsto> PInt 10000]]
        [''income'' \<mapsto> PInt 50000]) ''income'' = Some (PInt 50000)"
proof -
  let ?qr = "turn_after [followup ''awaiting-loan-details'' [''income'' \<mapsto> PInt 10000]]
        [''income'' \<mapsto> PInt 50000]"
  have p: "QueryResult.parameters ?qr ''income'' = Some (PInt 50000)"
    by (simp add: turn_after_def)
  show ?thesis
    using p current_turn_wins [OF p] by simp
qed

lemma merge_contexts_foldl:
  "merge_contexts m cs =
     foldl (\<lambda>m c. m ++ context_parameters c) m (filter context_matches cs)"
  by (induction cs arbitrary: m)
    (simp_all add: context_matches_def context_parameters_def dict_update_def
      split: option.split)

lemma get_merged_parameters_overlay:
  "get_merged_parameters qr = overlay_in_order (contexts_of qr) ++ QueryResult.parameters qr"
  by (simp add: get_merged_parameters_def overlay_in_order_def contexts_of_def
      merge_contexts_foldl dict_update_def split: option.split)

lemma foldl_overlay_untouched:
  "\<forall>c \<in> set cs. context_parameters c k = None \<Longrightarrow>
   foldl (\<lambda>m c. m ++ context_parameters c) m cs k = m k"
  by (induction cs arbitrary: m) (simp_all add: map_add_def)

lemma overlay_last_wins:
  assumes "cs = xs @ c # ys"
    and "context_matches c"
    and "context_parameters c k = Some v"
    and "\<forall>c' \<in> set ys. context_matches c' \<longrightarrow> context_parameters c' k = None"
  shows "overlay_in_order cs k = Some v"
proof -
  let ?f = "\<lambda>m c. m ++ context_parameters c"
  have ys: "\<forall>c' \<in> set (filter context_matches ys). context_parameters c' k = None"
    using assms(4) by simp
  have "overlay_in_order cs =
      foldl ?f (foldl ?f Map.empty (filter context_matches xs) ++ context_parameters c)
        (filter context_matches ys)"
    using assms(1,2) by (simp add: overlay_in_order_def)
  then have "overlay_in_order cs k =
      (foldl ?f Map.empty (filter context_matches xs) ++ context_parameters c) k"
    using foldl_overlay_untouched [OF ys] by simp
  then show ?thesis
    using assms(3) by simp
qed

lemma overlay_none:
  assumes "\<forall>c \<in> set cs. context_matches c \<longrightarrow> context_parameters c k = None"
  shows "overlay_in_order cs k = None"
proof -
  have "\<forall>c \<in> set (filter context_matches cs). context_parameters c k = None"
    using assms by simp
  then show ?thesis
    unfolding overlay_in_order_def by (simp add: foldl_overlay_untouched)
qed

text \<open>
  Claim C6. The merge overlays the parameters of exactly the contexts whose name contains
  \<^verbatim>\<open>awaiting-loan-details\<close> and whose parameters are non-empty, in the order of the
  list, and the current turn on top. So for a key that the current turn does not set, the
  last matching context that sets it decides, and when no matching context sets it the key
  stays unset; the other contexts contribute nothing.
\<close>

theorem merge_overlays_matching_contexts_in_order:
  "get_merged_parameters qr = overlay_in_order (contexts_of qr) ++ QueryResult.parameters qr \<and>
   (\<forall>xs c ys k v.
      contexts_of qr = xs @ c # ys \<and> context_matches c \<and> context_parameters c k = Some v \<and>
      (\<forall>c' \<in> set ys. context_matches c' \<longrightarrow> context_parameters c' k = None) \<and>
      QueryResult.parameters qr k = None
      \<longrightarrow> get_merged_parameters qr k = Some v) \<and>
   (\<forall>k. (\<forall>c \<in> set (contexts_of qr). context_matches c \<longrightarrow> context_parameters c k = None)
      \<longrightarrow> get_merged_parameters qr k = QueryResult.parameters qr k)"
proof (intro conjI allI impI)
  show "get_merged_parameters qr = overlay_in_order (contexts_of qr) ++ QueryResult.parameters qr"
    by (rule get_merged_parameters_overlay)
next
  fix xs c ys k v
  assume h: "contexts_of qr = xs @ c # ys \<and> context_matches c \<and> context_parameters c k = Some v \<and>
      (\<forall>c' \<in> set ys. context_matches c' \<longrightarrow> context_parameters c' k = None) \<and>
      QueryResult.parameters qr k = None"
  then have "overlay_in_order (contexts_of qr) k = Some v"
    using overlay_last_wins [of "contexts_of qr" xs c ys k v] by blast
  with h show "get_merged_parameters qr k = Some v"
    by (simp add: get_merged_parameters_overlay map_add_def)
next
  fix k
  assume "\<forall>c \<in> set (contexts_of qr). context_matches c \<longrightarrow> context_parameters c k = None"
  then have "overlay_in_order (contexts_of qr) k = None"
    by (rule overlay_none)
  then show "get_merged_parameters qr k = QueryResult.parameters qr k"
    by (simp add: get_merged_parameters_overlay map_add_def split: option.split)
qed

lemma marker_in_followup:
  "str_in ''awaiting-loan-details'' ''sessions/1/contexts/awaiting-loan-details-followup''"
  by code_simp

lemma marker_not_in_other:
  "\<not> str_in ''awaiting-loan-details'' ''sessions/1/contexts/loan-details''"
  by code_simp

text \<open>
  The theorem at a request with four contexts and a current turn that sets the income only:
  a matching context says car, a matching one says home, a context with another name says
  business, and a last one with the marker has no parameters. The merged loan type is home.
\<close>

theorem merge_overlays_matching_contexts_in_order_witness:
  "get_merged_parameters
     (turn_after
        [followup ''sessions/1/contexts/awaiting-loan-details-followup''
           [''loan-type'' \<mapsto> PStr ''car''],
         followup ''sessions/1/contexts/awaiting-loan-details-followup''
           [''loan-type'' \<mapsto> PStr ''home''],
         followup ''sessions/1/contexts/loan-details'' [''loan-type'' \<mapsto> PStr ''business''],
         followup ''sessions/1/contexts/awaiting-loan-details-followup'' Map.empty]
        [''income'' \<mapsto> PInt 50000]) ''loan-type'' = Some (PStr ''home'')"
proof -
  let ?a = "followup ''sessions/1/contexts/awaiting-loan-details-followup''
           [''loan-type'' \<mapsto> PStr ''car'']"
  let ?b = "followup ''sessions/1/contexts/loan-details'' [''loan-type'' \<mapsto> PStr ''business'']"
  let ?c = "followup ''sessions/1/contexts/awaiting-loan-details-followup''
           [''loan-type'' \<mapsto> PStr ''home'']"
  let ?d = "followup ''sessions/1/contexts/awaiting-loan-details-followup'' Map.empty"
  let ?qr = "turn_after [?a, ?c, ?b, ?d] [''income'' \<mapsto> PInt 50000]"
  have cs: "contexts_of ?qr = [?a] @ ?c # [?b, ?d]"
    by (simp add: contexts_of_def turn_after_def)
  have c: "context_matches ?c"
    by (simp add: context_matches_def followup_def marker_in_followup)
  have v: "context_parameters ?c ''loan-type'' = Some (PStr ''home'')"
    by (simp add: context_parameters_def followup_def)
  have b: "\<not> context_matches ?b"
    by (simp add: context_matches_def followup_def marker_not_in_other)
  have d: "context_parameters ?d ''loan-type'' = None"
    by (simp add: context_parameters_def followup_def)
  have bd: "\<forall>c' \<in> set [?b, ?d].
      context_matches c' \<longrightarrow> context_parameters c' ''loan-type'' = None"
    using b d by simp
  have p: "QueryResult.parameters ?qr ''loan-type'' = None"
    by (simp add: turn_after_def)
  show ?thesis
    using merge_overlays_matching_contexts_in_order [of ?qr] cs c v bd p by blast
qed

section \<open>The loan type\<close>

text \<open>
  Claim C7. The loan type is decided by the first check that applies, in this order: a
  truthy \<^verbatim>\<open>loan-type\<close> is returned as it is; then a truthy \<^verbatim>\<open>Home_eligibility\<close>
  gives home, \<^verbatim>\<open>Car_eligibility\<close> car, \<^verbatim>\<open>education_eligibility\<close> or
  \<^verbatim>\<open>edu_eligibility\<close> education, \<^verbatim>\<open>personal_eligibility\<close> personal,
  \<^verbatim>\<open>Business_eligibility\<close> business. When none applies the loan type is
  \<^verbatim>\<open>None\<close>, and for a request with that loan type the response is the fixed text that
  asks for the loan type.
\<close>

theorem loan_type_first_match:
  "(truthy (dict_get params ''loan-type'')
      \<longrightarrow> determine_loan_type params = dict_get params ''loan-type'') \<and>
   (\<not> truthy (dict_get params ''loan-type'') \<and> truthy (dict_get params ''Home_eligibility'')
      \<longrightarrow> determine_loan_type params = PStr ''home'') \<and>
   (\<not> truthy (dict_get params ''loan-type'') \<and> \<not> truthy (dict_get params ''Home_eligibility'') \<and>
    truthy (dict_get params ''Car_eligibility'')
      \<longrightarrow> determine_loan_type params = PStr ''car'') \<and>
   (\<not> truthy (dict_get params ''loan-type'') \<and> \<not> truthy (dict_get params ''Home_eligibility'') \<and>
    \<not> truthy (dict_get params ''Car_eligibility'') \<and>
    (truthy (dict_get params ''education_eligibility'') \<or>
     truthy (dict_get params ''edu_eligibility''))
      \<longrightarrow> determine_loan_type params = PStr ''education'') \<and>
   (\<not> truthy (dict_get params ''loan-type'') \<and> \<not> truthy (dict_get params ''Home_eligibility'') \<and>
    \<not> truthy (dict_get params ''Car_eligibility'') \<and>
    \<not> truthy (dict_get params ''education_eligibility'') \<and>
    \<not> truthy (dict_get params ''edu_eligibility'') \<and>
    truthy (dict_get params ''personal_eligibility'')
      \<longrightarrow> determine_loan_type params = PStr ''personal'') \<and>
   (\<not> truthy (dict_get params ''loan-type'') \<and> \<not> truthy (dict_get params ''Home_eligibility'') \<and>
    \<not> truthy (dict_get params ''Car_eligibility'') \<and>
    \<not> truthy (dict_get params ''education_eligibility'') \<and>
    \<not> truthy (dict_get params ''edu_eligibility'') \<and>
    \<not> truthy (dict_get params ''personal_eligibility'') \<and>
    truthy (dict_get params ''Business_eligibility'')
      \<longrightarrow> determine_loan_type params = PStr ''business'') \<and>
   (\<not> truthy (dict_get params ''loan-type'') \<and> \<not> truthy (dict_get params ''Home_eligibility'') \<and>
    \<not> truthy (dict_get params ''Car_eligibility'') \<and>
    \<not> truthy (dict_get params ''education_eligibility'') \<and>
    \<not> truthy (dict_get params ''edu_eligibility'') \<and>
    \<not> truthy (dict_get params ''personal_eligibility'') \<and>
    \<not> truthy (dict_get params ''Business_eligibility'')
      \<longrightarrow> determine_loan_type params = PNone) \<and>
   (determine_loan_type (get_merged_parameters (query_result request)) = PNone
      \<longrightarrow> loan_eligibility_webhook py request = Inr undetermined_text)"
proof -
  have "determine_loan_type (get_merged_parameters (query_result request)) = PNone
      \<longrightarrow> loan_eligibility_webhook py request = Inr undetermined_text"
    by (simp add: webhook_is_logic eligibility_logic_def)
  then show ?thesis
    by (simp add: determine_loan_type_def)
qed

text \<open>
  The theorem at parameters that set three flags and an empty \<^verbatim>\<open>loan-type\<close>: the home
  flag, the first in the order, decides. At parameters without any of the keys the loan type
  is \<^verbatim>\<open>None\<close> and the response asks for it.
\<close>

theorem loan_type_first_match_witness:
  "determine_loan_type
     [''loan-type'' \<mapsto> PStr [], ''Business_eligibility'' \<mapsto> PStr ''business'',
      ''Car_eligibility'' \<mapsto> PStr ''car'', ''Home_eligibility'' \<mapsto> PStr ''home loan'']
     = PStr ''home'' \<and>
   determine_loan_type [''age'' \<mapsto> PInt 30] = PNone \<and>
   loan_eligibility_webhook plain (turn_only [''age'' \<mapsto> PInt 30]) = Inr undetermined_text"
proof -
  let ?m = "[''loan-type'' \<mapsto> PStr [], ''Business_eligibility'' \<mapsto> PStr ''business'',
      ''Car_eligibility'' \<mapsto> PStr ''car'', ''Home_eligibility'' \<mapsto> PStr ''home loan'']"
  let ?n = "[''age'' \<mapsto> PInt 30]"
  have m1: "\<not> truthy (dict_get ?m ''loan-type'')"
    by (simp add: dict_get_def)
  have m2: "truthy (dict_get ?m ''Home_eligibility'')"
    by (simp add: dict_get_def)
  have home: "determine_loan_type ?m = PStr ''home''"
    using loan_type_first_match [of ?m] m1 m2 by blast
  have n: "\<not> truthy (dict_get ?n ''loan-type'') \<and> \<not> truthy (dict_get ?n ''Home_eligibility'') \<and>
      \<not> truthy (dict_get ?n ''Car_eligibility'') \<and>
      \<not> truthy (dict_get ?n ''education_eligibility'') \<and>
      \<not> truthy (dict_get ?n ''edu_eligibility'') \<and>
      \<not> truthy (dict_get ?n ''personal_eligibility'') \<and>
      \<not> truthy (dict_get ?n ''Business_eligibility'')"
    by (simp add: dict_get_def)
  have none: "determine_loan_type ?n = PNone"
    using loan_type_first_match [of ?n] n by blast
  have "loan_eligibility_webhook plain (turn_only ?n) = Inr undetermined_text"
    using loan_type_first_match [of ?n "turn_only ?n" plain] none
    by (simp add: merged_turn_only)
  then show ?thesis using home none by simp
qed

section \<open>Extracting a parameter\<close>

text \<open>
  Claim C8. \<^verbatim>\<open>get_parameter\<close> resolves the value under the primary key, and looks
  under the fallback key only when the primary value is absent or \<^verbatim>\<open>None\<close>. Of the
  resolved value it returns: \<^verbatim>\<open>None\<close> for \<^verbatim>\<open>None\<close>; the field
  \<^verbatim>\<open>amount\<close> of a dictionary that has one; the first element of a non-empty list;
  \<^verbatim>\<open>None\<close> for the empty string; and the value itself otherwise. The structured amount
  45000 in rupees gives 45000, and the list of the one string \<^verbatim>\<open>graduate\<close> gives that
  string.
\<close>

theorem get_parameter_cases:
  "(dict_get params k \<noteq> PNone \<longrightarrow> get_parameter params k fb = get_parameter params k None) \<and>
   (dict_get params k = PNone \<and> f \<noteq> []
      \<longrightarrow> get_parameter params k (Some f) = get_parameter params f None) \<and>
   (dict_get params k = PNone \<longrightarrow> get_parameter params k None = PNone) \<and>
   (\<forall>d a. dict_get params k = PDict d \<and> d ''amount'' = Some a
      \<longrightarrow> get_parameter params k None = a) \<and>
   (\<forall>x xs. dict_get params k = PList (x # xs) \<longrightarrow> get_parameter params k None = x) \<and>
   (dict_get params k = PStr [] \<longrightarrow> get_parameter params k None = PNone) \<and>
   (dict_get params k \<noteq> PNone \<and>
    (\<forall>d. dict_get params k = PDict d \<longrightarrow> d ''amount'' = None) \<and>
    (\<forall>x xs. dict_get params k \<noteq> PList (x # xs)) \<and>
    dict_get params k \<noteq> PStr []
      \<longrightarrow> get_parameter params k None = dict_get params k) \<and>
   get_parameter
     [''income'' \<mapsto> PDict [''amount'' \<mapsto> PInt 45000, ''currency'' \<mapsto> PStr ''INR'']]
     ''income'' (Some ''number'') = PInt 45000 \<and>
   get_parameter [''qualification'' \<mapsto> PList [PStr ''graduate'']] ''qualification'' None
     = PStr ''graduate''"
proof -
  have primary: "dict_get params k \<noteq> PNone \<longrightarrow>
      get_parameter params k fb = get_parameter params k None"
    by (cases "dict_get params k")
      (auto simp: get_parameter_def Let_def split: option.split list.split)
  have fallback: "dict_get params k = PNone \<and> f \<noteq> [] \<longrightarrow>
      get_parameter params k (Some f) = get_parameter params f None"
    by (cases "dict_get params f")
      (auto simp: get_parameter_def Let_def split: option.split list.split)
  have none: "dict_get params k = PNone \<longrightarrow> get_parameter params k None = PNone"
    by (simp add: get_parameter_def Let_def)
  have amount: "\<forall>d a. dict_get params k = PDict d \<and> d ''amount'' = Some a \<longrightarrow>
      get_parameter params k None = a"
    by (simp add: get_parameter_def Let_def)
  have first: "\<forall>x xs. dict_get params k = PList (x # xs) \<longrightarrow> get_parameter params k None = x"
    by (simp add: get_parameter_def Let_def)
  have empty: "dict_get params k = PStr [] \<longrightarrow> get_parameter params k None = PNone"
    by (simp add: get_parameter_def Let_def)
  have other: "dict_get params k \<noteq> PNone \<and>
      (\<forall>d. dict_get params k = PDict d \<longrightarrow> d ''amount'' = None) \<and>
      (\<forall>x xs. dict_get params k \<noteq> PList (x # xs)) \<and>
      dict_get params k \<noteq> PStr []
      \<longrightarrow> get_parameter params k None = dict_get params k"
    by (cases "dict_get params k")
      (auto simp: get_parameter_def Let_def split: option.split list.split)
  have ex1: "get_parameter
       [''income'' \<mapsto> PDict [''amount'' \<mapsto> PInt 45000, ''currency'' \<mapsto> PStr ''INR'']]
       ''income'' (Some ''number'') = PInt 45000"
    by (simp add: get_parameter_def dict_get_def)
  have ex2: "get_parameter [''qualification'' \<mapsto> PList [PStr ''graduate'']]
       ''qualification'' None = PStr ''graduate''"
    by (simp add: get_parameter_def dict_get_def)
  show ?thesis
    using primary fallback none amount first empty other ex1 ex2 by blast
qed

text \<open>
  The theorem at parameters whose age is \<^verbatim>\<open>None\<close> and whose generic number is a list:
  the fallback is read and its first element returned. Where the age is set, the number is
  not read.
\<close>

theorem get_parameter_cases_witness:
  "get_parameter [''age'' \<mapsto> PNone, ''number'' \<mapsto> PList [PInt 42, PInt 7]]
     ''age'' (Some ''number'') = PInt 42 \<and>
   get_parameter [''age'' \<mapsto> PInt 30, ''number'' \<mapsto> PInt 50000]
     ''age'' (Some ''number'') = PInt 30"
proof -
  let ?m = "[''age'' \<mapsto> PNone, ''number'' \<mapsto> PList [PInt 42, PInt 7]]"
  let ?n = "[''age'' \<mapsto> PInt 30, ''number'' \<mapsto> PInt 50000]"
  have a: "dict_get ?m ''age'' = PNone \<and> ''number'' \<noteq> []"
    by (simp add: dict_get_def)
  have b: "dict_get ?m ''number'' = PList (PInt 42 # [PInt 7])"
    by (simp add: dict_get_def)
  have m: "get_parameter ?m ''age'' (Some ''number'') = PInt 42"
    using get_parameter_cases [of ?m "''age''" None "''number''"]
      get_parameter_cases [of ?m "''number''" None "''number''"] a b
    by metis
  have c: "dict_get ?n ''age'' = PInt 30"
    by (simp add: dict_get_def)
  have c': "dict_get ?n ''age'' \<noteq> PNone"
    "\<forall>d. dict_get ?n ''age'' = PDict d \<longrightarrow> d ''amount'' = None"
    "\<forall>x xs. dict_get ?n ''age'' \<noteq> PList (x # xs)"
    "dict_get ?n ''age'' \<noteq> PStr []"
    by (simp_all add: c)
  have n: "get_parameter ?n ''age'' (Some ''number'') = PInt 30"
    using get_parameter_cases [of ?n "''age''" "Some ''number''" "''number''"] c c'
    by metis
  show ?thesis using m n by simp
qed

section \<open>Values that do not coerce\<close>

lemma int_of_twenty_five: "int_of_string py ''twenty five'' = Inl ValueError"
  by (simp add: int_of_string_def ascii_literal_def is_ascii_def strip_def is_space_def
      is_digit_def)

text \<open>
  Claim C9 says that the handler returns a text for every request. It does not: the
  coercions of the age and the income are not guarded. For a car loan whose age is the
  text \<^verbatim>\<open>twenty five\<close>, \<^verbatim>\<open>int\<close> raises \<^verbatim>\<open>ValueError\<close> and the exception
  leaves the handler.
\<close>

theorem car_loan_with_worded_age_raises:
  "loan_eligibility_webhook py
     (turn_only [''loan-type'' \<mapsto> PStr ''car'', ''age'' \<mapsto> PStr ''twenty five'',
        ''income'' \<mapsto> PInt 30000]) = Inl ValueError"
proof -
  let ?m = "[''loan-type'' \<mapsto> PStr ''car'', ''age'' \<mapsto> PStr ''twenty five'',
        ''income'' \<mapsto> PInt 30000]"
  have t: "determine_loan_type ?m = PStr ''car''"
    by (simp add: determine_loan_type_def dict_get_def)
  have a: "get_parameter ?m ''age'' (Some ''number'') = PStr ''twenty five''"
    by (simp add: get_parameter_def dict_get_def)
  have i: "get_parameter ?m ''income'' (Some ''number'') = PInt 30000"
    by (simp add: get_parameter_def dict_get_def)
  show ?thesis
    by (simp add: webhook_is_logic merged_turn_only t a i logic_car
        age_and_income_at_least_def int_of_twenty_five respond_Inl)
qed

section \<open>The empty list\<close>

lemma get_parameter_empty_list:
  "dict_get params k = PList [] \<Longrightarrow> get_parameter params k fb = PList []"
  by (simp add: get_parameter_def Let_def)

lemma get_parameter_empty_list_fallback:
  "dict_get params k = PNone \<Longrightarrow> f \<noteq> [] \<Longrightarrow> dict_get params f = PList [] \<Longrightarrow>
   get_parameter params k (Some f) = PList []"
  by (simp add: get_parameter_def Let_def)

lemma respond_empty_age:
  "respond (age_and_income_at_least py (PList []) min_age income min_income) yes no
     = Inl TypeError"
  by (simp add: age_and_income_at_least_def respond_def)

lemma respond_empty_income:
  "respond (age_and_income_at_least py age min_age (PList []) min_income) yes no =
     (case py_int py age of
        Inl e \<Rightarrow> Inl e
      | Inr a \<Rightarrow> if a \<ge> min_age then Inl TypeError else Inr no)"
  by (simp add: age_and_income_at_least_def respond_def split: sum.split)

lemma respond_graduate_empty_age:
  "respond (graduate_and_age_at_most py qualification (PList []) max_age) yes no =
     (if str_in ''graduate'' (lower (py_str py qualification)) then Inl TypeError else Inr no)"
  by (simp add: graduate_and_age_at_most_def respond_def)

lemma respond_graduate_empty_qualification:
  "respond (graduate_and_age_at_most py (PList []) age max_age) yes no =
     (if str_in ''graduate'' (lower (str_of_object py (PList []))) then
        (case py_int py age of
           Inl e \<Rightarrow> Inl e
         | Inr a \<Rightarrow> Inr (if a \<le> max_age then yes else no))
      else Inr no)"
  by (simp add: graduate_and_age_at_most_def respond_def py_str_def split: sum.split)

lemma respond_empty_business_income:
  "respond (income_at_least py (PList []) min_income) yes no = Inl TypeError"
  by (simp add: income_at_least_def respond_def)

text \<open>
  Claim C10. When the value that \<^verbatim>\<open>get_parameter\<close> resolves is the empty list, the
  result is the empty list, not \<^verbatim>\<open>None\<close>. So a required attribute that is the empty
  list counts as present: when the other required attributes of the product are present
  too, the handler enters the comparison and the response is not the prompt for missing
  values. The response is that of the comparison: \<^verbatim>\<open>TypeError\<close> where the empty list
  is coerced, and otherwise what the operand evaluated before it decides.
\<close>

theorem empty_list_counts_as_present:
  assumes "params = get_merged_parameters (query_result request)"
    and "loan_type = determine_loan_type params"
    and "age = get_parameter params ''age'' (Some ''number'')"
    and "income = get_parameter params ''income'' (Some ''number'')"
    and "qualification = get_parameter params ''qualification'' None"
    and "r = loan_eligibility_webhook py request"
  shows "(\<forall>k fb. dict_get params k = PList [] \<longrightarrow> get_parameter params k fb = PList []) \<and>
         (\<forall>k f. dict_get params k = PNone \<and> f \<noteq> [] \<and> dict_get params f = PList []
            \<longrightarrow> get_parameter params k (Some f) = PList []) \<and>
         ((age = PList [] \<and> income \<noteq> PNone) \<or> (income = PList [] \<and> age \<noteq> PNone) \<longrightarrow>
            (loan_type = PStr ''home'' \<longrightarrow> r \<noteq> Inr home_missing) \<and>
            (loan_type = PStr ''car'' \<longrightarrow> r \<noteq> Inr car_missing) \<and>
            (loan_type = PStr ''personal'' \<longrightarrow> r \<noteq> Inr personal_missing)) \<and>
         ((age = PList [] \<and> qualification \<noteq> PNone) \<or>
          (qualification = PList [] \<and> age \<noteq> PNone) \<longrightarrow>
            (loan_type = PStr ''education'' \<longrightarrow> r \<noteq> Inr education_missing)) \<and>
         (income = PList [] \<longrightarrow>
            (loan_type = PStr ''business'' \<longrightarrow> r \<noteq> Inr business_missing)) \<and>
         (age = PList [] \<and> income \<noteq> PNone \<and>
          (loan_type = PStr ''home'' \<or> loan_type = PStr ''car'' \<or> loan_type = PStr ''personal'')
            \<longrightarrow> r = Inl TypeError) \<and>
         (income = PList [] \<and> age \<noteq> PNone \<longrightarrow>
            (loan_type = PStr ''home'' \<longrightarrow>
               r = (case py_int py age of
                      Inl e \<Rightarrow> Inl e
                    | Inr a \<Rightarrow> if a \<ge> 21 then Inl TypeError else Inr home_ineligible)) \<and>
            (loan_type = PStr ''car'' \<longrightarrow>
               r = (case py_int py age of
                      Inl e \<Rightarrow> Inl e
                    | Inr a \<Rightarrow> if a \<ge> 18 then Inl TypeError else Inr car_ineligible)) \<and>
            (loan_type = PStr ''personal'' \<longrightarrow>
               r = (case py_int py age of
                      Inl e \<Rightarrow> Inl e
                    | Inr a \<Rightarrow> if a \<ge> 25 then Inl TypeError else Inr personal_ineligible))) \<and>
         (age = PList [] \<and> qualification \<noteq> PNone \<and> loan_type = PStr ''education'' \<longrightarrow>
            r = (if str_in ''graduate'' (lower (py_str py qualification))
                 then Inl TypeError else Inr education_ineligible)) \<and>
         (qualification = PList [] \<and> age \<noteq> PNone \<and> loan_type = PStr ''education'' \<longrightarrow>
            r = (if str_in ''graduate'' (lower (str_of_object py (PList []))) then
                   (case py_int py age of
                      Inl e \<Rightarrow> Inl e
                    | Inr a \<Rightarrow>
                        Inr (if a \<le> 30 then education_eligible else education_ineligible))
                 else Inr education_ineligible)) \<and>
         (income = PList [] \<and> loan_type = PStr ''business'' \<longrightarrow> r = Inl TypeError)"
proof -
  have r: "r = eligibility_logic py loan_type age income qualification"
    using assms by (simp add: webhook_is_logic)
  have g1: "\<forall>k fb. dict_get params k = PList [] \<longrightarrow> get_parameter params k fb = PList []"
    by (simp add: get_parameter_empty_list)
  have g2: "\<forall>k f. dict_get params k = PNone \<and> f \<noteq> [] \<and> dict_get params f = PList []
      \<longrightarrow> get_parameter params k (Some f) = PList []"
    by (simp add: get_parameter_empty_list_fallback)
  have home: "r \<noteq> Inr home_missing"
    if "age \<noteq> PNone" "income \<noteq> PNone" "loan_type = PStr ''home''"
    using that respond_neq_other [OF missing_neq_eligible(1) missing_neq_ineligible(1)]
    by (simp add: r logic_home)
  have car: "r \<noteq> Inr car_missing"
    if "age \<noteq> PNone" "income \<noteq> PNone" "loan_type = PStr ''car''"
    using that respond_neq_other [OF missing_neq_eligible(2) missing_neq_ineligible(2)]
    by (simp add: r logic_car)
  have personal: "r \<noteq> Inr personal_missing"
    if "age \<noteq> PNone" "income \<noteq> PNone" "loan_type = PStr ''personal''"
    using that respond_neq_other [OF missing_neq_eligible(3) missing_neq_ineligible(3)]
    by (simp add: r logic_personal)
  have education: "r \<noteq> Inr education_missing"
    if "age \<noteq> PNone" "qualification \<noteq> PNone" "loan_type = PStr ''education''"
    using that respond_neq_other [OF missing_neq_eligible(4) missing_neq_ineligible(4)]
    by (simp add: r logic_education)
  have business: "r \<noteq> Inr business_missing"
    if "income \<noteq> PNone" "loan_type = PStr ''business''"
    using that respond_neq_other [OF missing_neq_eligible(5) missing_neq_ineligible(5)]
    by (simp add: r logic_business)
  have a: "(age = PList [] \<and> income \<noteq> PNone) \<or> (income = PList [] \<and> age \<noteq> PNone) \<longrightarrow>
      (loan_type = PStr ''home'' \<longrightarrow> r \<noteq> Inr home_missing) \<and>
      (loan_type = PStr ''car'' \<longrightarrow> r \<noteq> Inr car_missing) \<and>
      (loan_type = PStr ''personal'' \<longrightarrow> r \<noteq> Inr personal_missing)"
  proof
    assume "(age = PList [] \<and> income \<noteq> PNone) \<or> (income = PList [] \<and> age \<noteq> PNone)"
    then have "age \<noteq> PNone" and "income \<noteq> PNone" by auto
    then show "(loan_type = PStr ''home'' \<longrightarrow> r \<noteq> Inr home_missing) \<and>
      (loan_type = PStr ''car'' \<longrightarrow> r \<noteq> Inr car_missing) \<and>
      (loan_type = PStr ''personal'' \<longrightarrow> r \<noteq> Inr personal_missing)"
      using home car personal by blast
  qed
  have b: "(age = PList [] \<and> qualification \<noteq> PNone) \<or>
      (qualification = PList [] \<and> age \<noteq> PNone) \<longrightarrow>
      (loan_type = PStr ''education'' \<longrightarrow> r \<noteq> Inr education_missing)"
  proof
    assume "(age = PList [] \<and> qualification \<noteq> PNone) \<or>
      (qualification = PList [] \<and> age \<noteq> PNone)"
    then have "age \<noteq> PNone" and "qualification \<noteq> PNone" by auto
    then show "loan_type = PStr ''education'' \<longrightarrow> r \<noteq> Inr education_missing"
      using education by blast
  qed
  have c: "income = PList [] \<longrightarrow>
      (loan_type = PStr ''business'' \<longrightarrow> r \<noteq> Inr business_missing)"
  proof
    assume "income = PList []"
    then have "income \<noteq> PNone" by simp
    then show "loan_type = PStr ''business'' \<longrightarrow> r \<noteq> Inr business_missing"
      using business by blast
  qed
  have d: "age = PList [] \<and> income \<noteq> PNone \<and>
      (loan_type = PStr ''home'' \<or> loan_type = PStr ''car'' \<or> loan_type = PStr ''personal'')
      \<longrightarrow> r = Inl TypeError"
    by (auto simp: r logic_home logic_car logic_personal respond_empty_age)
  have e: "income = PList [] \<and> age \<noteq> PNone \<longrightarrow>
      (loan_type = PStr ''home'' \<longrightarrow>
         r = (case py_int py age of
                Inl e \<Rightarrow> Inl e
              | Inr a \<Rightarrow> if a \<ge> 21 then Inl TypeError else Inr home_ineligible)) \<and>
      (loan_type = PStr ''car'' \<longrightarrow>
         r = (case py_int py age of
                Inl e \<Rightarrow> Inl e
              | Inr a \<Rightarrow> if a \<ge> 18 then Inl TypeError else Inr car_ineligible)) \<and>
      (loan_type = PStr ''personal'' \<longrightarrow>
         r = (case py_int py age of
                Inl e \<Rightarrow> Inl e
              | Inr a \<Rightarrow> if a \<ge> 25 then Inl TypeError else Inr personal_ineligible))"
    by (simp add: r logic_home logic_car logic_personal respond_empty_income)
  have f: "age = PList [] \<and> qualification \<noteq> PNone \<and> loan_type = PStr ''education'' \<longrightarrow>
      r = (if str_in ''graduate'' (lower (py_str py qualification))
           then Inl TypeError else Inr education_ineligible)"
    by (simp add: r logic_education respond_graduate_empty_age)
  have g: "qualification = PList [] \<and> age \<noteq> PNone \<and> loan_type = PStr ''education'' \<longrightarrow>
      r = (if str_in ''graduate'' (lower (str_of_object py (PList []))) then
             (case py_int py age of
                Inl e \<Rightarrow> Inl e
              | Inr a \<Rightarrow>
                  Inr (if a \<le> 30 then education_eligible else education_ineligible))
           else Inr education_ineligible)"
    by (simp add: r logic_education respond_graduate_empty_qualification)
  have h: "income = PList [] \<and> loan_type = PStr ''business'' \<longrightarrow> r = Inl TypeError"
    by (simp add: r logic_business respond_empty_business_income)
  show ?thesis
    by (intro conjI) (rule g1 g2 a b c d e f g h)+
qed

text \<open>
  The theorem at a business loan whose income is the empty list: the extracted income is
  the empty list, the response is not the prompt, and the coercion of the list raises
  \<^verbatim>\<open>TypeError\<close>. And at a home loan whose income is the empty list and whose age is
  20: the comparison is entered and the age decides.
\<close>

theorem empty_list_counts_as_present_witness:
  "get_parameter [''loan-type'' \<mapsto> PStr ''business'', ''income'' \<mapsto> PList []]
     ''income'' (Some ''number'') = PList [] \<and>
   loan_eligibility_webhook plain
     (turn_only [''loan-type'' \<mapsto> PStr ''business'', ''income'' \<mapsto> PList []])
     \<noteq> Inr business_missing \<and>
   loan_eligibility_webhook plain
     (turn_only [''loan-type'' \<mapsto> PStr ''business'', ''income'' \<mapsto> PList []])
     = Inl TypeError \<and>
   loan_eligibility_webhook plain
     (turn_only [''loan-type'' \<mapsto> PStr ''home'', ''age'' \<mapsto> PInt 20, ''income'' \<mapsto> PList []])
     = Inr home_ineligible"
proof -
  let ?m = "[''loan-type'' \<mapsto> PStr ''business'', ''income'' \<mapsto> PList []]"
  let ?h = "[''loan-type'' \<mapsto> PStr ''home'', ''age'' \<mapsto> PInt 20, ''income'' \<mapsto> PList []]"
  have t: "determine_loan_type ?m = PStr ''business''"
    by (simp add: determine_loan_type_def dict_get_def)
  have d: "dict_get ?m ''income'' = PList []"
    by (simp add: dict_get_def)
  note e = empty_list_counts_as_present [OF refl refl refl refl refl refl,
      of "turn_only ?m" plain, unfolded merged_turn_only]
  have i: "get_parameter ?m ''income'' (Some ''number'') = PList []"
    using e [THEN conjunct1] d by blast
  have n: "loan_eligibility_webhook plain (turn_only ?m) \<noteq> Inr business_missing"
    using e [THEN conjunct2, THEN conjunct2, THEN conjunct2, THEN conjunct2, THEN conjunct1]
      t i by blast
  have x: "loan_eligibility_webhook plain (turn_only ?m) = Inl TypeError"
    using e [THEN conjunct2, THEN conjunct2, THEN conjunct2, THEN conjunct2, THEN conjunct2,
        THEN conjunct2, THEN conjunct2, THEN conjunct2, THEN conjunct2]
      t i by blast
  have ht: "determine_loan_type ?h = PStr ''home''"
    by (simp add: determine_loan_type_def dict_get_def)
  have ha: "get_parameter ?h ''age'' (Some ''number'') = PInt 20"
    by (simp add: get_parameter_def dict_get_def)
  have ha': "get_parameter ?h ''age'' (Some ''number'') \<noteq> PNone"
    by (simp add: ha)
  have hd: "dict_get ?h ''income'' = PList []"
    by (simp add: dict_get_def)
  note k = empty_list_counts_as_present [OF refl refl refl refl refl refl,
      of "turn_only ?h" plain, unfolded merged_turn_only]
  have hi: "get_parameter ?h ''income'' (Some ''number'') = PList []"
    using k [THEN conjunct1] hd by blast
  have "loan_eligibility_webhook plain (turn_only ?h) =
      (case py_int plain (get_parameter ?h ''age'' (Some ''number'')) of
         Inl e \<Rightarrow> Inl e
       | Inr a \<Rightarrow> if a \<ge> 21 then Inl TypeError else Inr home_ineligible)"
    using k [THEN conjunct2, THEN conjunct2, THEN conjunct2, THEN conjunct2, THEN conjunct2,
        THEN conjunct2, THEN conjunct1]
      ht hi ha' by blast
  then have y: "loan_eligibility_webhook plain (turn_only ?h) = Inr home_ineligible"
    by (simp add: ha)
  show ?thesis using i n x y by blast
qed

end
